theory Spec2Isabelle
  imports Main "HOL-Library.Char_ord" "HOL-Library.List_Lexorder" "HOL-Library.AList"
begin

section \<open>http-response-collector: the push handler of main.go\<close>

text \<open>
  The program is one Go file. Its handler \<open>pubSubHandler\<close> receives a Pub/Sub push
  request, decodes the envelope, validates the URL, fetches it and publishes an
  \<open>OutputPayload\<close>. Go strings and byte slices are byte sequences, here \<open>string\<close>
  (a \<open>char\<close> is one byte). Every \<open>err != nil\<close> branch of the source is a branch of the
  model. The effects of a call (the outbound HTTP dispatch, what is handed to the
  publisher, the status written to the inbound response) are returned as a trace of
  events, in the order the source performs them.
\<close>

subsection \<open>Errors\<close>

datatype error =
    ReadFailure          \<comment> \<open>a \<open>Read\<close> on a body stream failed (reset, timeout, ...)\<close>
  | SyntaxError          \<comment> \<open>\<open>encoding/json\<close>: the bytes are not a JSON value\<close>
  | UnmarshalTypeError   \<comment> \<open>\<open>encoding/json\<close>: a JSON value does not fit the Go field\<close>
  | CorruptInputError    \<comment> \<open>\<open>encoding/base64\<close>\<close>
  | UrlError             \<comment> \<open>\<open>net/url\<close>: \<open>url.Parse\<close> refused the string\<close>
  | TransportError       \<comment> \<open>\<open>client.Do\<close>: refused, DNS, TLS, \<open>Client.Timeout\<close> exceeded\<close>
  | MarshalError         \<comment> \<open>\<open>json.Marshal\<close> returned an error\<close>
  | ClientError          \<comment> \<open>\<open>pubsub.NewClient\<close> returned an error\<close>

subsection \<open>Library: \<open>io.Reader\<close>, \<open>io.LimitReader\<close>, \<open>io.ReadAll\<close>\<close>

text \<open>
  A body is a stream: the bytes it still has to deliver and the way it ends once they
  are delivered (\<open>None\<close> is \<open>io.EOF\<close>, \<open>Some e\<close> a read error). A read error is
  reported by a \<open>Read\<close> that delivers no bytes. \<open>LimitReader r k\<close> is
  \<open>io.LimitedReader{R: r, N: k}\<close>.
\<close>

datatype reader = Stream string "error option" | LimitReader reader int

datatype io_status = NoError | EOF | Failed error

text \<open>\<open>Read n r\<close> is \<open>r.Read(p)\<close> with \<open>len(p) = n\<close>: the bytes stored in \<open>p\<close>, the
  error returned, and the reader afterwards.\<close>

fun Read :: "nat \<Rightarrow> reader \<Rightarrow> (string \<times> io_status) \<times> reader" where
  "Read n (Stream bs e) =
     (if bs = [] then (([], case e of None \<Rightarrow> EOF | Some x \<Rightarrow> Failed x), Stream bs e)
      else ((take n bs, NoError), Stream (drop n bs) e))"
| "Read n (LimitReader r k) =
     (if k \<le> 0 then (([], EOF), LimitReader r k)
      else (let n' = (if int n > k then nat k else n);
                res = Read n' r
            in (fst res, LimitReader (snd res) (k - int (length (fst (fst res)))))))"

fun avail :: "reader \<Rightarrow> nat" where
  "avail (Stream bs e) = length bs"
| "avail (LimitReader r k) = avail r"

text \<open>\<open>io.ReadAll\<close>: read until an error or EOF, EOF is not reported as an error. The
  free room of its buffer is at least one byte at every iteration; it starts at 512
  bytes. It returns the bytes read so far together with the error, as Go does.\<close>

function ReadAll_loop :: "reader \<Rightarrow> string \<Rightarrow> string \<times> error option" where
  "ReadAll_loop r b =
     (case Read 512 r of
        ((bs, NoError), r') \<Rightarrow> ReadAll_loop r' (b @ bs)
      | ((bs, EOF), r') \<Rightarrow> (b @ bs, None)
      | ((bs, Failed e), r') \<Rightarrow> (b @ bs, Some e))"
  by pat_completeness auto
termination
proof (relation "measure (\<lambda>(r, b). avail r)")
  show "wf (measure (\<lambda>(r, b). avail r))" by simp
next
  fix r :: reader and b :: string and x1 r' x1a and st :: io_status
  assume a: "(x1, r') = Read 512 r" "(x1a, st) = x1" "st = NoError"
  have progress: "0 < n \<Longrightarrow> snd (fst (Read n q)) = NoError \<Longrightarrow> avail (snd (Read n q)) < avail q"
    for n q
  proof (induction q arbitrary: n)
    case (Stream bs e)
    then show ?case by (auto split: if_splits option.splits)
  next
    case (LimitReader q k)
    show ?case
    proof (cases "k \<le> 0")
      case True
      with LimitReader.prems show ?thesis by simp
    next
      case False
      let ?n' = "if int n > k then nat k else n"
      from False LimitReader.prems have pos: "0 < ?n'" by auto
      from False LimitReader.prems have "snd (fst (Read ?n' q)) = NoError"
        by (simp add: Let_def)
      from LimitReader.IH [OF pos this] False show ?thesis
        by (simp add: Let_def)
    qed
  qed
  from a have "snd (fst (Read 512 r)) = NoError" "r' = snd (Read 512 r)"
    by (metis fst_conv snd_conv)+
  with progress [of 512 r] show "((r', b @ x1a), (r, b)) \<in> measure (\<lambda>(r, b). avail r)"
    by simp
qed

declare ReadAll_loop.simps [simp del]

definition ReadAll :: "reader \<Rightarrow> string \<times> error option" where
  "ReadAll r = ReadAll_loop r []"

subsection \<open>Library: the scanner of \<open>encoding/json\<close> (\<open>json.Valid\<close>)\<close>

text \<open>
  \<open>json.Valid\<close> and the first phase of \<open>json.Unmarshal\<close> run \<open>checkValid\<close>: a
  scanner that is fed one byte at a time. Its state is the name of the current step
  function, the stack of open objects and arrays (the head of the list is the top),
  \<open>endTop\<close> and whether an error was recorded. Each step function below is the Go
  function of the same name of \<open>encoding/json/scanner.go\<close>.
\<close>

datatype scan_code =
    scanContinue | scanBeginLiteral | scanBeginObject | scanObjectKey | scanObjectValue
  | scanEndObject | scanBeginArray | scanArrayValue | scanEndArray | scanSkipSpace
  | scanEnd | scanError

datatype parse_state = parseObjectKey | parseObjectValue | parseArrayValue

datatype step_fn =
    BeginValueOrEmpty | BeginValue | BeginStringOrEmpty | BeginString | EndValue | EndTop
  | InString | InStringEsc | InStringEscU | InStringEscU1 | InStringEscU12 | InStringEscU123
  | Neg | St1 | St0 | Dot | Dot0 | StE | ESign | E0
  | StT | Tr | Tru | StF | Fa | Fal | Fals | StN | Nu | Nul
  | StError

record scanner =
  step :: step_fn
  parseState :: "parse_state list"
  endTop :: bool
  err :: bool

definition maxNestingDepth :: nat where
  "maxNestingDepth = 10000"

definition reset :: scanner where
  "reset = \<lparr>step = BeginValue, parseState = [], endTop = False, err = False\<rparr>"

definition scanner_error :: "scanner \<Rightarrow> scan_code \<times> scanner" where
  "scanner_error s = (scanError, s\<lparr>step := StError, err := True\<rparr>)"

definition pushParseState :: "scanner \<Rightarrow> parse_state \<Rightarrow> scan_code \<Rightarrow> scan_code \<times> scanner" where
  "pushParseState s newParseState successState =
     (let s' = s\<lparr>parseState := newParseState # parseState s\<rparr>
      in if length (parseState s') \<le> maxNestingDepth then (successState, s')
         else scanner_error s')"

definition popParseState :: "scanner \<Rightarrow> scanner" where
  "popParseState s =
     (let ps = tl (parseState s)
      in if ps = [] then s\<lparr>parseState := ps, step := EndTop, endTop := True\<rparr>
         else s\<lparr>parseState := ps, step := EndValue\<rparr>)"

definition isSpace :: "char \<Rightarrow> bool" where
  "isSpace c = (c \<le> CHR '' '' \<and> (c = CHR '' '' \<or> c = CHR 0x09 \<or> c = CHR 0x0D \<or> c = CHR 0x0A))"

definition isDigit :: "char \<Rightarrow> bool" where
  "isDigit c = (CHR ''0'' \<le> c \<and> c \<le> CHR ''9'')"

definition isDigit19 :: "char \<Rightarrow> bool" where
  "isDigit19 c = (CHR ''1'' \<le> c \<and> c \<le> CHR ''9'')"

definition isHex :: "char \<Rightarrow> bool" where
  "isHex c = (CHR ''0'' \<le> c \<and> c \<le> CHR ''9'' \<or> CHR ''a'' \<le> c \<and> c \<le> CHR ''f''
              \<or> CHR ''A'' \<le> c \<and> c \<le> CHR ''F'')"

definition stateEndTop :: "scanner \<Rightarrow> char \<Rightarrow> scan_code \<times> scanner" where
  "stateEndTop s c = (scanEnd, if isSpace c then s else snd (scanner_error s))"

definition stateEndValue :: "scanner \<Rightarrow> char \<Rightarrow> scan_code \<times> scanner" where
  "stateEndValue s c =
     (case parseState s of
        [] \<Rightarrow> stateEndTop (s\<lparr>step := EndTop, endTop := True\<rparr>) c
      | ps # rest \<Rightarrow>
          if isSpace c then (scanSkipSpace, s\<lparr>step := EndValue\<rparr>)
          else (case ps of
            parseObjectKey \<Rightarrow>
              if c = CHR '':'' then
                (scanObjectKey, s\<lparr>parseState := parseObjectValue # rest, step := BeginValue\<rparr>)
              else scanner_error s
          | parseObjectValue \<Rightarrow>
              if c = CHR '','' then
                (scanObjectValue, s\<lparr>parseState := parseObjectKey # rest, step := BeginString\<rparr>)
              else if c = CHR ''}'' then (scanEndObject, popParseState s)
              else scanner_error s
          | parseArrayValue \<Rightarrow>
              if c = CHR '','' then (scanArrayValue, s\<lparr>step := BeginValue\<rparr>)
              else if c = CHR '']'' then (scanEndArray, popParseState s)
              else scanner_error s))"

definition stateBeginValue :: "scanner \<Rightarrow> char \<Rightarrow> scan_code \<times> scanner" where
  "stateBeginValue s c =
     (if isSpace c then (scanSkipSpace, s)
      else if c = CHR ''{'' then
        pushParseState (s\<lparr>step := BeginStringOrEmpty\<rparr>) parseObjectKey scanBeginObject
      else if c = CHR ''['' then
        pushParseState (s\<lparr>step := BeginValueOrEmpty\<rparr>) parseArrayValue scanBeginArray
      else if c = CHR 0x22 then (scanBeginLiteral, s\<lparr>step := InString\<rparr>)
      else if c = CHR ''-'' then (scanBeginLiteral, s\<lparr>step := Neg\<rparr>)
      else if c = CHR ''0'' then (scanBeginLiteral, s\<lparr>step := St0\<rparr>)
      else if c = CHR ''t'' then (scanBeginLiteral, s\<lparr>step := StT\<rparr>)
      else if c = CHR ''f'' then (scanBeginLiteral, s\<lparr>step := StF\<rparr>)
      else if c = CHR ''n'' then (scanBeginLiteral, s\<lparr>step := StN\<rparr>)
      else if isDigit19 c then (scanBeginLiteral, s\<lparr>step := St1\<rparr>)
      else scanner_error s)"

definition stateBeginValueOrEmpty :: "scanner \<Rightarrow> char \<Rightarrow> scan_code \<times> scanner" where
  "stateBeginValueOrEmpty s c =
     (if isSpace c then (scanSkipSpace, s)
      else if c = CHR '']'' then stateEndValue s c
      else stateBeginValue s c)"

definition stateBeginString :: "scanner \<Rightarrow> char \<Rightarrow> scan_code \<times> scanner" where
  "stateBeginString s c =
     (if isSpace c then (scanSkipSpace, s)
      else if c = CHR 0x22 then (scanBeginLiteral, s\<lparr>step := InString\<rparr>)
      else scanner_error s)"

text \<open>In \<open>stateBeginStringOrEmpty\<close> the stack is never empty (the state is entered by
  pushing an object); Go would panic on the index otherwise.\<close>

definition stateBeginStringOrEmpty :: "scanner \<Rightarrow> char \<Rightarrow> scan_code \<times> scanner" where
  "stateBeginStringOrEmpty s c =
     (if isSpace c then (scanSkipSpace, s)
      else if c = CHR ''}'' then
        (case parseState s of
           [] \<Rightarrow> scanner_error s
         | ps # rest \<Rightarrow> stateEndValue (s\<lparr>parseState := parseObjectValue # rest\<rparr>) c)
      else stateBeginString s c)"

definition stateInString :: "scanner \<Rightarrow> char \<Rightarrow> scan_code \<times> scanner" where
  "stateInString s c =
     (if c = CHR 0x22 then (scanContinue, s\<lparr>step := EndValue\<rparr>)
      else if c = CHR 0x5C then (scanContinue, s\<lparr>step := InStringEsc\<rparr>)
      else if c < CHR 0x20 then scanner_error s
      else (scanContinue, s))"

definition stateInStringEsc :: "scanner \<Rightarrow> char \<Rightarrow> scan_code \<times> scanner" where
  "stateInStringEsc s c =
     (if c \<in> set [CHR ''b'', CHR ''f'', CHR ''n'', CHR ''r'', CHR ''t'', CHR 0x5C, CHR ''/'', CHR 0x22]
      then (scanContinue, s\<lparr>step := InString\<rparr>)
      else if c = CHR ''u'' then (scanContinue, s\<lparr>step := InStringEscU\<rparr>)
      else scanner_error s)"

definition stateInStringEscU :: "step_fn \<Rightarrow> scanner \<Rightarrow> char \<Rightarrow> scan_code \<times> scanner" where
  "stateInStringEscU nxt s c =
     (if isHex c then (scanContinue, s\<lparr>step := nxt\<rparr>) else scanner_error s)"

definition state0 :: "scanner \<Rightarrow> char \<Rightarrow> scan_code \<times> scanner" where
  "state0 s c =
     (if c = CHR ''.'' then (scanContinue, s\<lparr>step := Dot\<rparr>)
      else if c = CHR ''e'' \<or> c = CHR ''E'' then (scanContinue, s\<lparr>step := StE\<rparr>)
      else stateEndValue s c)"

definition state1 :: "scanner \<Rightarrow> char \<Rightarrow> scan_code \<times> scanner" where
  "state1 s c = (if isDigit c then (scanContinue, s\<lparr>step := St1\<rparr>) else state0 s c)"

definition stateNeg :: "scanner \<Rightarrow> char \<Rightarrow> scan_code \<times> scanner" where
  "stateNeg s c =
     (if c = CHR ''0'' then (scanContinue, s\<lparr>step := St0\<rparr>)
      else if isDigit19 c then (scanContinue, s\<lparr>step := St1\<rparr>)
      else scanner_error s)"

definition stateDot :: "scanner \<Rightarrow> char \<Rightarrow> scan_code \<times> scanner" where
  "stateDot s c = (if isDigit c then (scanContinue, s\<lparr>step := Dot0\<rparr>) else scanner_error s)"

definition stateDot0 :: "scanner \<Rightarrow> char \<Rightarrow> scan_code \<times> scanner" where
  "stateDot0 s c =
     (if isDigit c then (scanContinue, s)
      else if c = CHR ''e'' \<or> c = CHR ''E'' then (scanContinue, s\<lparr>step := StE\<rparr>)
      else stateEndValue s c)"

definition stateESign :: "scanner \<Rightarrow> char \<Rightarrow> scan_code \<times> scanner" where
  "stateESign s c = (if isDigit c then (scanContinue, s\<lparr>step := E0\<rparr>) else scanner_error s)"

definition stateE :: "scanner \<Rightarrow> char \<Rightarrow> scan_code \<times> scanner" where
  "stateE s c =
     (if c = CHR ''+'' \<or> c = CHR ''-'' then (scanContinue, s\<lparr>step := ESign\<rparr>)
      else stateESign s c)"

definition stateE0 :: "scanner \<Rightarrow> char \<Rightarrow> scan_code \<times> scanner" where
  "stateE0 s c = (if isDigit c then (scanContinue, s) else stateEndValue s c)"

text \<open>The step functions of the literals \<open>true\<close>, \<open>false\<close> and \<open>null\<close> (\<open>stateT\<close>,
  \<open>stateTr\<close>, ...) all have one shape: the expected byte moves to the next step.\<close>

definition stateLiteral :: "char \<Rightarrow> step_fn \<Rightarrow> scanner \<Rightarrow> char \<Rightarrow> scan_code \<times> scanner" where
  "stateLiteral expected nxt s c =
     (if c = expected then (scanContinue, s\<lparr>step := nxt\<rparr>) else scanner_error s)"

text \<open>\<open>s.step(s, c)\<close>: the call through the function value.\<close>

definition call_step :: "scanner \<Rightarrow> char \<Rightarrow> scan_code \<times> scanner" where
  "call_step s c =
     (case step s of
        BeginValueOrEmpty \<Rightarrow> stateBeginValueOrEmpty s c
      | BeginValue \<Rightarrow> stateBeginValue s c
      | BeginStringOrEmpty \<Rightarrow> stateBeginStringOrEmpty s c
      | BeginString \<Rightarrow> stateBeginString s c
      | EndValue \<Rightarrow> stateEndValue s c
      | EndTop \<Rightarrow> stateEndTop s c
      | InString \<Rightarrow> stateInString s c
      | InStringEsc \<Rightarrow> stateInStringEsc s c
      | InStringEscU \<Rightarrow> stateInStringEscU InStringEscU1 s c
      | InStringEscU1 \<Rightarrow> stateInStringEscU InStringEscU12 s c
      | InStringEscU12 \<Rightarrow> stateInStringEscU InStringEscU123 s c
      | InStringEscU123 \<Rightarrow> stateInStringEscU InString s c
      | Neg \<Rightarrow> stateNeg s c
      | St1 \<Rightarrow> state1 s c
      | St0 \<Rightarrow> state0 s c
      | Dot \<Rightarrow> stateDot s c
      | Dot0 \<Rightarrow> stateDot0 s c
      | StE \<Rightarrow> stateE s c
      | ESign \<Rightarrow> stateESign s c
      | E0 \<Rightarrow> stateE0 s c
      | StT \<Rightarrow> stateLiteral CHR ''r'' Tr s c
      | Tr \<Rightarrow> stateLiteral CHR ''u'' Tru s c
      | Tru \<Rightarrow> stateLiteral CHR ''e'' EndValue s c
      | StF \<Rightarrow> stateLiteral CHR ''a'' Fa s c
      | Fa \<Rightarrow> stateLiteral CHR ''l'' Fal s c
      | Fal \<Rightarrow> stateLiteral CHR ''s'' Fals s c
      | Fals \<Rightarrow> stateLiteral CHR ''e'' EndValue s c
      | StN \<Rightarrow> stateLiteral CHR ''u'' Nu s c
      | Nu \<Rightarrow> stateLiteral CHR ''l'' Nul s c
      | Nul \<Rightarrow> stateLiteral CHR ''l'' EndValue s c
      | StError \<Rightarrow> (scanError, s))"

text \<open>\<open>scanner.eof\<close>: the input has ended; a top-level number ends here.\<close>

definition eof :: "scanner \<Rightarrow> scan_code" where
  "eof s =
     (if err s then scanError
      else if endTop s then scanEnd
      else (let s' = snd (call_step s CHR '' '')
            in if endTop s' then scanEnd else scanError))"

text \<open>\<open>checkValid\<close>: \<open>None\<close> is Go's \<open>nil\<close> error.\<close>

fun scan_all :: "scanner \<Rightarrow> string \<Rightarrow> scanner option" where
  "scan_all s [] = Some s"
| "scan_all s (c # cs) =
     (case call_step s c of (code, s') \<Rightarrow> if code = scanError then None else scan_all s' cs)"

definition checkValid :: "string \<Rightarrow> error option" where
  "checkValid data =
     (case scan_all reset data of
        None \<Rightarrow> Some SyntaxError
      | Some s \<Rightarrow> if eof s = scanError then Some SyntaxError else None)"

definition json_Valid :: "string \<Rightarrow> bool" where
  "json_Valid data = (checkValid data = None)"

subsection \<open>Library: \<open>base64.StdEncoding.DecodeString\<close>\<close>

text \<open>
  The standard alphabet with padding, not strict. \<open>decodeMap\<close> is the table built
  from the alphabet (\<open>None\<close> is Go's \<open>0xff\<close>). \<open>Decode\<close> follows \<open>decodeQuantum\<close>:
  \<open>dbuf\<close> holds the 6-bit values of the quantum read so far, line feeds and carriage
  returns are skipped, padding is only accepted at the end of the input. The result is
  \<open>dbuf[:n], err\<close>: the bytes of the quanta decoded before the error stay in front.
\<close>

definition encodeStd :: string where
  "encodeStd = ''ABCDEFGHIJKLMNOPQRSTUVWXYZabcdefghijklmnopqrstuvwxyz0123456789+/''"

fun index_from :: "int \<Rightarrow> char \<Rightarrow> string \<Rightarrow> int option" where
  "index_from i c [] = None"
| "index_from i c (x # xs) = (if x = c then Some i else index_from (i + 1) c xs)"

definition decodeMap :: "char \<Rightarrow> int option" where
  "decodeMap c = index_from 0 c encodeStd"

definition isNewline :: "char \<Rightarrow> bool" where
  "isNewline c = (c = CHR 0x0A \<or> c = CHR 0x0D)"

fun skip_newlines :: "string \<Rightarrow> string" where
  "skip_newlines [] = []"
| "skip_newlines (c # cs) = (if isNewline c then skip_newlines cs else c # cs)"

text \<open>The bytes of a quantum of \<open>dlen = length dbuf\<close> values: \<open>dlen - 1\<close> bytes of the
  24-bit value.\<close>

definition quantum_bytes :: "int list \<Rightarrow> string" where
  "quantum_bytes dbuf =
     (let d = dbuf @ replicate (4 - length dbuf) 0;
          val = (d ! 0) * 2 ^ 18 + (d ! 1) * 2 ^ 12 + (d ! 2) * 2 ^ 6 + (d ! 3)
      in take (length dbuf - 1)
           [char_of (val div 2 ^ 16), char_of (val div 2 ^ 8), char_of val])"

fun Decode :: "int list \<Rightarrow> string \<Rightarrow> string \<times> error option" where
  "Decode dbuf [] = ([], if dbuf = [] then None else Some CorruptInputError)"
| "Decode dbuf (c # src) =
     (case decodeMap c of
        Some out \<Rightarrow>
          if length dbuf = 3 then
            (let r = Decode [] src in (quantum_bytes (dbuf @ [out]) @ fst r, snd r))
          else Decode (dbuf @ [out]) src
      | None \<Rightarrow>
          if isNewline c then Decode dbuf src
          else if c = CHR ''='' then
            (if length dbuf < 2 then ([], Some CorruptInputError)
             else if length dbuf = 2 then
               (case skip_newlines src of
                  [] \<Rightarrow> ([], Some CorruptInputError)
                | c' # src' \<Rightarrow>
                    if c' = CHR ''='' then
                      (quantum_bytes dbuf,
                       if skip_newlines src' = [] then None else Some CorruptInputError)
                    else ([], Some CorruptInputError))
             else (quantum_bytes dbuf,
                   if skip_newlines src = [] then None else Some CorruptInputError))
          else ([], Some CorruptInputError))"

definition DecodeString :: "string \<Rightarrow> string \<times> error option" where
  "DecodeString s = Decode [] s"

subsection \<open>Library: \<open>strings\<close>\<close>

definition HasPrefix :: "string \<Rightarrow> string \<Rightarrow> bool" where
  "HasPrefix s pre = (length pre \<le> length s \<and> take (length pre) s = pre)"

fun Join :: "string list \<Rightarrow> string \<Rightarrow> string" where
  "Join [] sep = []"
| "Join [x] sep = x"
| "Join (x # y # xs) sep = x @ sep @ Join (y # xs) sep"

subsection \<open>The types of main.go\<close>

record Message_t =
  Data :: string
  Attributes :: "(string \<times> string) list"
  MessageID :: string
  PublishTime :: string

record PubSubMessage =
  Message :: Message_t
  Subscription :: string

record InputPayload =
  URL :: string

record OutputPayload =
  URL :: string
  Error :: string
  Headers :: string
  ResponseBody :: string
  ResponseJson :: string
  ResponseTime :: int
  RequestTime :: string
  StatusCode :: int

text \<open>\<open>var output OutputPayload\<close>: every field has its zero value.\<close>

definition zero_OutputPayload :: OutputPayload where
  "zero_OutputPayload =
     \<lparr>URL = [], Error = [], Headers = [], ResponseBody = [], ResponseJson = [],
      ResponseTime = 0, RequestTime = [], StatusCode = 0\<rparr>"

subsection \<open>\<open>json.Marshal\<close> of the two types the program marshals\<close>

text \<open>
  The members \<open>json.Marshal\<close> emits for an \<open>OutputPayload\<close>, in the order of the
  struct's fields: a field tagged \<open>omitempty\<close> is left out when it is the empty string,
  the fields without the tag (\<open>url\<close>, \<open>responseTime\<close>, \<open>requestTime\<close>, \<open>statusCode\<close>)
  are always emitted. The value \<open>JString v\<close> of a member stands for the JSON string
  that the encoder writes for the Go string \<open>v\<close>; the text of that string is not
  modelled (the encoder escapes characters and writes U+FFFD for every byte of \<open>v\<close>
  that is not valid UTF-8, so it reads back as \<open>v\<close> exactly when \<open>v\<close> is valid UTF-8).
  Which members are emitted depends on the Go values alone. Marshalling a struct of
  strings and integers returns no error.
\<close>

datatype jvalue = JString string | JNumber int

type_synonym json_object = "(string \<times> jvalue) list"

definition omitempty :: "string \<Rightarrow> string \<Rightarrow> json_object" where
  "omitempty name v = (if v = [] then [] else [(name, JString v)])"

definition json_Marshal :: "OutputPayload \<Rightarrow> error + json_object" where
  "json_Marshal p =
     Inr ([(''url'', JString (OutputPayload.URL p))]
          @ omitempty ''error'' (Error p)
          @ omitempty ''headers'' (Headers p)
          @ omitempty ''responseBody'' (ResponseBody p)
          @ omitempty ''responseJson'' (ResponseJson p)
          @ [(''responseTime'', JNumber (ResponseTime p)),
             (''requestTime'', JString (RequestTime p)),
             (''statusCode'', JNumber (StatusCode p))])"

text \<open>
  \<open>json.Marshal\<close> of a \<open>map[string]string\<close>: an object whose members are sorted by
  key (byte order), as text. \<open>quote\<close> is the encoder of a JSON string (quotes and
  escapes), a parameter of the model. A Go map is modelled as an association list with
  one entry per key.
\<close>

definition json_Marshal_map :: "(string \<Rightarrow> string) \<Rightarrow> (string \<times> string) list \<Rightarrow> error + string" where
  "json_Marshal_map quote m =
     Inr (''{'' @ Join (map (\<lambda>(k, v). quote k @ '':'' @ quote v) (sort_key fst m)) '','' @ ''}'')"

subsection \<open>What the program does not decide\<close>

record Request =
  req_Method :: string
  req_URL :: string
  req_Header :: "(string \<times> string) list"

text \<open>\<open>resp_Header\<close> is \<open>resp.Header\<close>, a \<open>map[string][]string\<close>, as the list of its
  entries in the order \<open>range\<close> visits them.\<close>

record Response =
  resp_StatusCode :: int
  resp_Header :: "(string \<times> string list) list"
  resp_Body :: reader

text \<open>The inbound \<open>*http.Request\<close>.\<close>

record inbound =
  Method :: string
  Body :: reader

text \<open>
  The world of one call: the network, the clock, the environment variables, and the
  parts of the library that are left open (the second phase of \<open>json.Unmarshal\<close>, which
  fills the Go value from syntactically valid JSON; the checks of \<open>url.Parse\<close> after
  its first one; the encoder of JSON strings).
\<close>

record world =
  unmarshal_PubSubMessage :: "string \<Rightarrow> error + PubSubMessage"
  unmarshal_InputPayload :: "string \<Rightarrow> error + InputPayload"
  url_parse_rest :: "string \<Rightarrow> error option"
  client_Do :: "Request \<Rightarrow> error + Response"
  startTime :: string      \<comment> \<open>\<open>time.Now()\<close> in \<open>fetchURL\<close>, as \<open>UTC().Format(time.RFC3339Nano)\<close>\<close>
  sinceStart :: int        \<comment> \<open>\<open>time.Since(startTime).Milliseconds()\<close>\<close>
  errorTime :: string      \<comment> \<open>\<open>time.Now()\<close> in \<open>publishErrorMessage\<close>, formatted likewise\<close>
  RESPONSE_PUBSUB :: string
  GOOGLE_CLOUD_PROJECT :: string
  pubsub_NewClient :: "error option"
  quote :: "string \<Rightarrow> string"

text \<open>\<open>json.Unmarshal(data, &v)\<close>: \<open>checkValid\<close> first, then the decoding into \<open>v\<close>.\<close>

definition json_Unmarshal :: "(string \<Rightarrow> error + 'a) \<Rightarrow> string \<Rightarrow> error + 'a" where
  "json_Unmarshal unmarshal data =
     (case checkValid data of Some e \<Rightarrow> Inl e | None \<Rightarrow> unmarshal data)"

text \<open>\<open>url.Parse\<close> cuts the fragment off and refuses a control byte in what is left;
  \<open>http.NewRequest\<close> with a valid method and no body fails only when \<open>url.Parse\<close> does.\<close>

definition stringContainsCTLByte :: "string \<Rightarrow> bool" where
  "stringContainsCTLByte s = list_ex (\<lambda>b. b < CHR '' '' \<or> b = CHR 0x7F) s"

definition url_Parse :: "world \<Rightarrow> string \<Rightarrow> error + string" where
  "url_Parse w rawURL =
     (let u = takeWhile (\<lambda>c. c \<noteq> CHR ''#'') rawURL
      in if stringContainsCTLByte u then Inl UrlError
         else (case url_parse_rest w rawURL of Some e \<Rightarrow> Inl e | None \<Rightarrow> Inr rawURL))"

definition http_NewRequest :: "world \<Rightarrow> string \<Rightarrow> string \<Rightarrow> error + Request" where
  "http_NewRequest w method url =
     (case url_Parse w url of
        Inl e \<Rightarrow> Inl e
      | Inr u \<Rightarrow> Inr \<lparr>req_Method = method, req_URL = u, req_Header = []\<rparr>)"

subsection \<open>The functions of main.go\<close>

datatype sink = LogSink | Topic string string

datatype event =
    Dispatch Request            \<comment> \<open>\<open>client.Do(req)\<close> was called\<close>
  | Emit sink json_object       \<comment> \<open>\<open>publishMessage\<close> handed the marshalled message to the log or to the topic\<close>
  | WriteHeader int             \<comment> \<open>\<open>w.WriteHeader(status)\<close>\<close>

definition StatusOK :: int where
  "StatusOK = 200"

definition MethodPost :: string where
  "MethodPost = ''POST''"

text \<open>\<open>publishMessage\<close>: the message goes to the topic \<open>RESPONSE_PUBSUB\<close> of the project
  \<open>GOOGLE_CLOUD_PROJECT\<close>; with either unset, or no client, it is written to the log.\<close>

definition publishMessage :: "world \<Rightarrow> OutputPayload \<Rightarrow> event list" where
  "publishMessage w message =
     (case json_Marshal message of
        Inl e \<Rightarrow> []
      | Inr messageJSON \<Rightarrow>
          if RESPONSE_PUBSUB w = [] then [Emit LogSink messageJSON]
          else if GOOGLE_CLOUD_PROJECT w = [] then [Emit LogSink messageJSON]
          else (case pubsub_NewClient w of
                  Some e \<Rightarrow> [Emit LogSink messageJSON]
                | None \<Rightarrow> [Emit (Topic (GOOGLE_CLOUD_PROJECT w) (RESPONSE_PUBSUB w)) messageJSON]))"

definition publishErrorMessage :: "world \<Rightarrow> string \<Rightarrow> string \<Rightarrow> event list" where
  "publishErrorMessage w errorMsg url =
     publishMessage w
       (zero_OutputPayload\<lparr>URL := url, Error := errorMsg, RequestTime := errorTime w\<rparr>)"

definition isValidURL :: "string \<Rightarrow> bool" where
  "isValidURL url = (HasPrefix url ''http://'' \<or> HasPrefix url ''https://'')"

definition decodeBase64 :: "string \<Rightarrow> error + string" where
  "decodeBase64 encoded =
     (case DecodeString encoded of
        (decodedBytes, Some e) \<Rightarrow> Inl e
      | (decodedBytes, None) \<Rightarrow> Inr decodedBytes)"

text \<open>The loop over \<open>resp.Header\<close>: \<open>headers[key] = strings.Join(values, ", ")\<close>.\<close>

definition joinHeaders :: "(string \<times> string list) list \<Rightarrow> (string \<times> string) list" where
  "joinHeaders hdr = fold (\<lambda>(key, values). AList.update key (Join values '', '')) hdr []"

definition bodyLimit :: int where
  "bodyLimit = 10 * 1024 * 1024"

text \<open>\<open>fetchURL\<close> returns its events and the pair of a payload and an error: \<open>Inl e\<close> is
  \<open>nil, err\<close>.\<close>

definition fetchURL :: "world \<Rightarrow> string \<Rightarrow> event list \<times> (error + OutputPayload)" where
  "fetchURL w url =
     (case http_NewRequest w ''GET'' url of
        Inl e \<Rightarrow> ([], Inl e)
      | Inr req0 \<Rightarrow>
          (let req = req0\<lparr>req_Header := AList.update ''User-Agent'' ''http-response-collector'' (req_Header req0)\<rparr>
           in case client_Do w req of
                Inl e \<Rightarrow> ([Dispatch req], Inl e)
              | Inr resp \<Rightarrow>
                  (let responseTime = sinceStart w;
                       headers = joinHeaders (resp_Header resp);
                       encodedHeaders = (case json_Marshal_map (quote w) headers of
                                           Inl e \<Rightarrow> ''{}''
                                         | Inr b \<Rightarrow> b)
                   in case ReadAll (LimitReader (resp_Body resp) bodyLimit) of
                        (bodyBytes, Some e) \<Rightarrow> ([Dispatch req], Inl e)
                      | (bodyBytes, None) \<Rightarrow>
                          (let output = zero_OutputPayload
                                 \<lparr>URL := url, Headers := encodedHeaders,
                                  ResponseTime := responseTime, RequestTime := startTime w,
                                  StatusCode := resp_StatusCode resp\<rparr>
                           in ([Dispatch req],
                               Inr (if json_Valid bodyBytes
                                    then output\<lparr>ResponseJson := bodyBytes\<rparr>
                                    else output\<lparr>ResponseBody := bodyBytes\<rparr>))))))"

definition pubSubHandler :: "world \<Rightarrow> inbound \<Rightarrow> event list" where
  "pubSubHandler w r =
     (if Method r \<noteq> MethodPost then
        publishErrorMessage w ''Invalid request method'' [] @ [WriteHeader StatusOK]
      else case ReadAll (Body r) of
        (body, Some e) \<Rightarrow> publishErrorMessage w ''Cannot read body'' [] @ [WriteHeader StatusOK]
      | (body, None) \<Rightarrow>
      (case json_Unmarshal (unmarshal_PubSubMessage w) body of
        Inl e \<Rightarrow> publishErrorMessage w ''Error unmarshalling JSON'' body @ [WriteHeader StatusOK]
      | Inr msg \<Rightarrow>
      (case decodeBase64 (Data (Message msg)) of
        Inl e \<Rightarrow>
          publishErrorMessage w ''Error decoding data'' (Data (Message msg)) @ [WriteHeader StatusOK]
      | Inr data \<Rightarrow>
      (case json_Unmarshal (unmarshal_InputPayload w) data of
        Inl e \<Rightarrow>
          publishErrorMessage w ''Error unmarshalling input JSON'' data @ [WriteHeader StatusOK]
      | Inr input \<Rightarrow>
      (if \<not> isValidURL (InputPayload.URL input) then
         publishErrorMessage w ''Invalid URL'' (InputPayload.URL input) @ [WriteHeader StatusOK]
       else case fetchURL w (InputPayload.URL input) of
         (evs, Inl e) \<Rightarrow>
           evs @ publishErrorMessage w ''Error fetching URL'' (InputPayload.URL input)
               @ [WriteHeader StatusOK]
       | (evs, Inr output) \<Rightarrow>
           (case json_Marshal output of
              Inl e \<Rightarrow>
                evs @ publishErrorMessage w ''Error marshalling output JSON'' (InputPayload.URL input)
                    @ [WriteHeader StatusOK]
            | Inr outputJSON \<Rightarrow> evs @ publishMessage w output @ [WriteHeader StatusOK]))))))"

subsection \<open>Observations on a trace\<close>

text \<open>The statuses written to the inbound response, the messages handed to the
  publisher, and the requests dispatched to the network, each in order.\<close>

fun statuses :: "event list \<Rightarrow> int list" where
  "statuses [] = []"
| "statuses (WriteHeader s # evs) = s # statuses evs"
| "statuses (ev # evs) = statuses evs"

fun published :: "event list \<Rightarrow> json_object list" where
  "published [] = []"
| "published (Emit k m # evs) = m # published evs"
| "published (ev # evs) = published evs"

fun dispatched :: "event list \<Rightarrow> Request list" where
  "dispatched [] = []"
| "dispatched (Dispatch q # evs) = q # dispatched evs"
| "dispatched (ev # evs) = dispatched evs"

text \<open>The request \<open>fetchURL\<close> dispatches for a URL that \<open>url.Parse\<close> accepts.\<close>

definition GET_request :: "string \<Rightarrow> Request" where
  "GET_request url =
     \<lparr>req_Method = ''GET'', req_URL = url,
      req_Header = [(''User-Agent'', ''http-response-collector'')]\<rparr>"

text \<open>A published object is failure-shaped for a URL and an error string when its
  \<open>url\<close> and \<open>error\<close> members are these, it has a \<open>requestTime\<close> string, it has no
  \<open>headers\<close>, \<open>responseBody\<close> or \<open>responseJson\<close> member, and its \<open>responseTime\<close> and
  \<open>statusCode\<close> are not populated: each is absent or the zero value.\<close>

definition failure_shaped :: "json_object \<Rightarrow> string \<Rightarrow> string \<Rightarrow> bool" where
  "failure_shaped obj errorMsg url =
     (map_of obj ''url'' = Some (JString url) \<and> map_of obj ''error'' = Some (JString errorMsg)
      \<and> (case map_of obj ''requestTime'' of Some (JString t) \<Rightarrow> True | _ \<Rightarrow> False)
      \<and> map_of obj ''headers'' = None \<and> map_of obj ''responseBody'' = None
      \<and> map_of obj ''responseJson'' = None
      \<and> (map_of obj ''responseTime'' = None \<or> map_of obj ''responseTime'' = Some (JNumber 0))
      \<and> (map_of obj ''statusCode'' = None \<or> map_of obj ''statusCode'' = Some (JNumber 0)))"

text \<open>The body members of the object \<open>json.Marshal\<close> emits for a payload.\<close>

definition body_members :: "OutputPayload \<Rightarrow> json_object" where
  "body_members p =
     (case json_Marshal p of
        Inl e \<Rightarrow> []
      | Inr obj \<Rightarrow> filter (\<lambda>(k, v). k = ''responseBody'' \<or> k = ''responseJson'') obj)"

subsection \<open>The stages before the fetch\<close>

text \<open>\<open>delivers w r msg\<close>: the inbound request is a POST whose body is read without error
  and unmarshals to the envelope \<open>msg\<close>. \<open>decodes_to w r url\<close>: moreover the blob of the
  envelope is valid base64 and the decoded payload unmarshals to a request for \<open>url\<close>.\<close>

definition delivers :: "world \<Rightarrow> inbound \<Rightarrow> PubSubMessage \<Rightarrow> bool" where
  "delivers w r msg =
     (Method r = MethodPost \<and>
      (case ReadAll (Body r) of
         (body, Some e) \<Rightarrow> False
       | (body, None) \<Rightarrow> json_Unmarshal (unmarshal_PubSubMessage w) body = Inr msg))"

definition decodes_to :: "world \<Rightarrow> inbound \<Rightarrow> string \<Rightarrow> bool" where
  "decodes_to w r url =
     (Method r = MethodPost \<and>
      (case ReadAll (Body r) of
         (body, Some e) \<Rightarrow> False
       | (body, None) \<Rightarrow>
          (case json_Unmarshal (unmarshal_PubSubMessage w) body of
             Inl e \<Rightarrow> False
           | Inr msg \<Rightarrow>
              (case decodeBase64 (Data (Message msg)) of
                 Inl e \<Rightarrow> False
               | Inr data \<Rightarrow>
                  (case json_Unmarshal (unmarshal_InputPayload w) data of
                     Inl e \<Rightarrow> False
                   | Inr input \<Rightarrow> InputPayload.URL input = url)))))"

subsection \<open>A concrete world\<close>

text \<open>
  For concrete runs: a push request whose envelope carries the blob \<open>d\<close>, and a world
  in which that envelope decodes to a message with \<open>Data = d\<close>, the payload text \<open>p\<close>
  decodes to the URL \<open>u\<close>, \<open>url.Parse\<close> has no further objection, the network answers
  by \<open>net\<close>, no topic is configured, and strings without special characters are quoted.
\<close>

definition envelope :: "string \<Rightarrow> string" where
  "envelope d = ''{'' @ [CHR 0x22] @ ''message'' @ [CHR 0x22] @ '':{'' @ [CHR 0x22] @ ''data''
                @ [CHR 0x22] @ '':'' @ [CHR 0x22] @ d @ [CHR 0x22] @ ''}}''"

definition push :: "string \<Rightarrow> inbound" where
  "push d = \<lparr>Method = ''POST'', Body = Stream (envelope d) None\<rparr>"

definition demo_world :: "string \<Rightarrow> string \<Rightarrow> string \<Rightarrow> (Request \<Rightarrow> error + Response) \<Rightarrow> world" where
  "demo_world d p u net =
     \<lparr>unmarshal_PubSubMessage =
        (\<lambda>body. if body = envelope d
                then Inr \<lparr>Message = \<lparr>Data = d, Attributes = [], MessageID = [], PublishTime = []\<rparr>,
                          Subscription = []\<rparr>
                else Inl UnmarshalTypeError),
      unmarshal_InputPayload = (\<lambda>data. if data = p then Inr \<lparr>InputPayload.URL = u\<rparr> else Inl UnmarshalTypeError),
      url_parse_rest = (\<lambda>rawURL. None),
      client_Do = net,
      startTime = ''2025-02-04T23:37:31.64365949Z'',
      sinceStart = 366,
      errorTime = ''2025-02-05T01:27:41.915539558Z'',
      RESPONSE_PUBSUB = [],
      GOOGLE_CLOUD_PROJECT = [],
      pubsub_NewClient = None,
      quote = (\<lambda>s. [CHR 0x22] @ s @ [CHR 0x22])\<rparr>"

text \<open>The payload \<open>{"url":"http://example.com/"}\<close> and its base64 encoding.\<close>

definition example_payload :: string where
  "example_payload = ''{'' @ [CHR 0x22] @ ''url'' @ [CHR 0x22] @ '':'' @ [CHR 0x22]
                      @ ''http://example.com/'' @ [CHR 0x22] @ ''}''"

definition example_blob :: string where
  "example_blob = ''eyJ1cmwiOiJodHRwOi8vZXhhbXBsZS5jb20vIn0=''"

text \<open>A server that answers 200 with two cookies and the given body stream.\<close>

definition answer :: "reader \<Rightarrow> Request \<Rightarrow> error + Response" where
  "answer body req =
     Inr \<lparr>resp_StatusCode = 200,
          resp_Header = [(''Content-Type'', [''text/plain'']), (''Set-Cookie'', [''a=1'', ''b=2''])],
          resp_Body = body\<rparr>"

definition example_world :: "reader \<Rightarrow> world" where
  "example_world body = demo_world example_blob example_payload ''http://example.com/'' (answer body)"

text \<open>A body of one byte more than 10 MiB.\<close>

definition big_body :: string where
  "big_body = replicate (10 * 1024 * 1024 + 1) CHR ''a''"

section \<open>Properties\<close>

subsection \<open>Traces of the parts\<close>

lemma statuses_append: "statuses (xs @ ys) = statuses xs @ statuses ys"
  by (induction xs rule: statuses.induct) simp_all

lemma statuses_publishMessage: "statuses (publishMessage w m) = []"
  by (simp add: publishMessage_def json_Marshal_def split: option.splits)

lemma statuses_publishErrorMessage: "statuses (publishErrorMessage w m u) = []"
  by (simp add: publishErrorMessage_def statuses_publishMessage)

lemma statuses_fetchURL: "statuses (fst (fetchURL w url)) = []"
  by (simp add: fetchURL_def Let_def split: sum.splits prod.splits option.splits)

subsection \<open>\<open>io.ReadAll\<close> on a stream, with and without a limit\<close>

lemma ReadAll_loop_Stream: "ReadAll_loop (Stream bs e) b = (b @ bs, e)"
proof (induction "length bs" arbitrary: bs b rule: less_induct)
  case less
  show ?case
  proof (cases "bs = []")
    case True
    then show ?thesis by (subst ReadAll_loop.simps) (simp split: option.splits)
  next
    case False
    then have "length (drop 512 bs) < length bs" by simp
    from less [OF this, of "b @ take 512 bs"] False show ?thesis
      by (subst ReadAll_loop.simps) simp
  qed
qed

lemma ReadAll_loop_LimitReader:
  "ReadAll_loop (LimitReader (Stream bs e) k) b =
     (if k \<le> int (length bs) then (b @ take (nat k) bs, None) else (b @ bs, e))"
proof (induction "length bs" arbitrary: bs b k rule: less_induct)
  case less
  show ?case
  proof (cases "k \<le> 0")
    case True
    then show ?thesis by (subst ReadAll_loop.simps) simp
  next
    case kpos: False
    show ?thesis
    proof (cases "bs = []")
      case True
      with kpos show ?thesis
        by (subst ReadAll_loop.simps) (simp add: Let_def split: option.splits)
    next
      case False
      define n where "n = (if 512 > k then nat k else 512)"
      have npos: "0 < n" and nk: "int n \<le> k" using kpos by (simp_all add: n_def)
      from False npos have lt: "length (drop n bs) < length bs" by simp
      have step: "ReadAll_loop (LimitReader (Stream bs e) k) b =
            ReadAll_loop (LimitReader (Stream (drop n bs) e) (k - int (length (take n bs)))) (b @ take n bs)"
        using kpos False by (subst ReadAll_loop.simps) (simp add: Let_def n_def)
      show ?thesis
      proof (cases "n \<le> length bs")
        case True
        then have len: "length (take n bs) = n" by simp
        have tk: "take n bs @ take (nat (k - int n)) (drop n bs) = take (nat k) bs"
        proof -
          have "nat k = n + nat (k - int n)" using nk by simp
          then show ?thesis by (simp add: take_add)
        qed
        show ?thesis
          unfolding step less [OF lt] len
          using True nk tk by (auto simp: )
      next
        case short: False
        then have len: "take n bs = bs" "drop n bs = []" by simp_all
        from short nk have big: "\<not> k \<le> int (length bs)" by simp
        have "ReadAll_loop (LimitReader (Stream bs e) k) b =
              ReadAll_loop (LimitReader (Stream [] e) (k - int (length bs))) (b @ bs)"
          using step by (simp add: len)
        also have "\<dots> = (b @ bs, e)"
          using less [OF lt, where k = "k - int (length bs)" and b = "b @ bs"] big by (simp add: len)
        finally show ?thesis using big by simp
      qed
    qed
  qed
qed

lemma ReadAll_Stream: "ReadAll (Stream bs e) = (bs, e)"
  by (simp add: ReadAll_def ReadAll_loop_Stream)

lemma ReadAll_LimitReader:
  "ReadAll (LimitReader (Stream bs e) k) =
     (if k \<le> int (length bs) then (take (nat k) bs, None) else (bs, e))"
  by (simp add: ReadAll_def ReadAll_loop_LimitReader)

subsection \<open>What the handler and \<open>fetchURL\<close> do, stage by stage\<close>

lemma published_append: "published (xs @ ys) = published xs @ published ys"
  by (induction xs rule: published.induct) simp_all

lemma dispatched_append: "dispatched (xs @ ys) = dispatched xs @ dispatched ys"
  by (induction xs rule: dispatched.induct) simp_all

lemma published_publishMessage:
  "published (publishMessage w m) = (case json_Marshal m of Inl e \<Rightarrow> [] | Inr obj \<Rightarrow> [obj])"
  by (simp add: publishMessage_def split: sum.splits option.splits)

lemma dispatched_publishMessage: "dispatched (publishMessage w m) = []"
  by (simp add: publishMessage_def split: sum.splits option.splits)

lemma dispatched_publishErrorMessage: "dispatched (publishErrorMessage w m u) = []"
  by (simp add: publishErrorMessage_def dispatched_publishMessage)

lemma published_publishErrorMessage:
  "errorMsg \<noteq> [] \<Longrightarrow>
   published (publishErrorMessage w errorMsg url) =
     [[(''url'', JString url), (''error'', JString errorMsg), (''responseTime'', JNumber 0),
       (''requestTime'', JString (errorTime w)), (''statusCode'', JNumber 0)]]"
  by (simp add: publishErrorMessage_def published_publishMessage json_Marshal_def
      zero_OutputPayload_def omitempty_def)

lemma failure_shaped_error_object:
  "failure_shaped [(''url'', JString url), (''error'', JString errorMsg), (''responseTime'', JNumber 0),
       (''requestTime'', JString t), (''statusCode'', JNumber 0)] errorMsg url"
  by (simp add: failure_shaped_def)

lemma handler_invalid:
  "decodes_to w r url \<Longrightarrow> \<not> isValidURL url \<Longrightarrow>
   pubSubHandler w r = publishErrorMessage w ''Invalid URL'' url @ [WriteHeader StatusOK]"
  by (auto simp: decodes_to_def pubSubHandler_def split: prod.splits option.splits sum.splits)

lemma handler_valid:
  "decodes_to w r url \<Longrightarrow> isValidURL url \<Longrightarrow>
   pubSubHandler w r =
     (case fetchURL w url of
        (evs, Inl e) \<Rightarrow> evs @ publishErrorMessage w ''Error fetching URL'' url @ [WriteHeader StatusOK]
      | (evs, Inr output) \<Rightarrow> evs @ publishMessage w output @ [WriteHeader StatusOK])"
  by (auto simp: decodes_to_def pubSubHandler_def json_Marshal_def split: prod.splits option.splits sum.splits)

lemma url_Parse_Inr: "url_Parse w url = Inr u \<Longrightarrow> u = url"
  by (auto simp: url_Parse_def Let_def split: if_splits option.splits)

lemma fetchURL_bad_url: "url_Parse w url = Inl e \<Longrightarrow> fetchURL w url = ([], Inl e)"
  by (simp add: fetchURL_def http_NewRequest_def)

lemma fetchURL_no_response:
  "url_Parse w url = Inr url \<Longrightarrow> client_Do w (GET_request url) = Inl e \<Longrightarrow>
   fetchURL w url = ([Dispatch (GET_request url)], Inl e)"
  by (simp add: fetchURL_def http_NewRequest_def GET_request_def Let_def)

lemma fetchURL_body_error:
  "url_Parse w url = Inr url \<Longrightarrow> client_Do w (GET_request url) = Inr resp \<Longrightarrow>
   ReadAll (LimitReader (resp_Body resp) bodyLimit) = (b, Some e) \<Longrightarrow>
   fetchURL w url = ([Dispatch (GET_request url)], Inl e)"
  by (simp add: fetchURL_def http_NewRequest_def GET_request_def Let_def)

lemma fetchURL_success:
  "url_Parse w url = Inr url \<Longrightarrow> client_Do w (GET_request url) = Inr resp \<Longrightarrow>
   ReadAll (LimitReader (resp_Body resp) bodyLimit) = (bodyBytes, None) \<Longrightarrow>
   fetchURL w url =
     ([Dispatch (GET_request url)],
      Inr \<lparr>URL = url, Error = [],
           Headers = (case json_Marshal_map (quote w) (joinHeaders (resp_Header resp)) of
                        Inl e \<Rightarrow> ''{}'' | Inr b \<Rightarrow> b),
           ResponseBody = (if json_Valid bodyBytes then [] else bodyBytes),
           ResponseJson = (if json_Valid bodyBytes then bodyBytes else []),
           ResponseTime = sinceStart w, RequestTime = startTime w,
           StatusCode = resp_StatusCode resp\<rparr>)"
  by (simp add: fetchURL_def http_NewRequest_def GET_request_def Let_def zero_OutputPayload_def)

lemma not_json_Valid_empty: "\<not> json_Valid []"
  by code_simp

lemma handler_statuses: "statuses (pubSubHandler w r) = [200]"
proof -
  have f: "statuses evs = []" if "fetchURL w u = (evs, res)" for u evs res
    using statuses_fetchURL [of w u] that by simp
  show ?thesis
    unfolding pubSubHandler_def
    by (auto simp: statuses_append statuses_publishMessage statuses_publishErrorMessage
        StatusOK_def f split: sum.splits prod.splits option.splits)
qed

lemma handler_bad_method:
  "Method r \<noteq> MethodPost \<Longrightarrow>
   pubSubHandler w r = publishErrorMessage w ''Invalid request method'' [] @ [WriteHeader StatusOK]"
  by (simp add: pubSubHandler_def)

lemma handler_bad_blob:
  "delivers w r msg \<Longrightarrow> decodeBase64 (Data (Message msg)) = Inl e \<Longrightarrow>
   pubSubHandler w r =
     publishErrorMessage w ''Error decoding data'' (Data (Message msg)) @ [WriteHeader StatusOK]"
  by (auto simp: delivers_def pubSubHandler_def split: prod.splits option.splits sum.splits)

lemma handler_bad_payload:
  "delivers w r msg \<Longrightarrow> decodeBase64 (Data (Message msg)) = Inr data \<Longrightarrow>
   json_Unmarshal (unmarshal_InputPayload w) data = Inl e \<Longrightarrow>
   pubSubHandler w r =
     publishErrorMessage w ''Error unmarshalling input JSON'' data @ [WriteHeader StatusOK]"
  by (auto simp: delivers_def pubSubHandler_def split: prod.splits option.splits sum.splits)

lemma error_trace:
  assumes "errorMsg \<noteq> []"
  shows "\<exists>obj. published (publishErrorMessage w errorMsg url @ [WriteHeader StatusOK]) = [obj]
            \<and> failure_shaped obj errorMsg url"
    and "dispatched (publishErrorMessage w errorMsg url @ [WriteHeader StatusOK]) = []"
  using assms
  by (simp_all add: published_append dispatched_append published_publishErrorMessage
      dispatched_publishErrorMessage failure_shaped_error_object)

subsection \<open>The concrete world\<close>

lemma error_trace_published:
  "errorMsg \<noteq> [] \<Longrightarrow>
   published (publishErrorMessage w errorMsg url @ [WriteHeader StatusOK]) =
     [[(''url'', JString url), (''error'', JString errorMsg), (''responseTime'', JNumber 0),
       (''requestTime'', JString (errorTime w)), (''statusCode'', JNumber 0)]]"
  by (simp add: published_append published_publishErrorMessage)

lemma demo_errorTime: "errorTime (demo_world d p u net) = ''2025-02-05T01:27:41.915539558Z''"
  by (simp add: demo_world_def)

lemma example_errorTime: "errorTime (example_world body) = ''2025-02-05T01:27:41.915539558Z''"
  by (simp add: example_world_def demo_world_def)

lemma demo_delivers:
  "checkValid (envelope d) = None \<Longrightarrow>
   delivers (demo_world d p u net) (push d)
     \<lparr>Message = \<lparr>Data = d, Attributes = [], MessageID = [], PublishTime = []\<rparr>, Subscription = []\<rparr>"
  by (simp add: delivers_def push_def MethodPost_def ReadAll_Stream json_Unmarshal_def demo_world_def)

lemma demo_decodes_to:
  "checkValid (envelope d) = None \<Longrightarrow> decodeBase64 d = Inr p \<Longrightarrow> checkValid p = None \<Longrightarrow>
   decodes_to (demo_world d p u net) (push d) u"
  by (simp add: decodes_to_def push_def MethodPost_def ReadAll_Stream json_Unmarshal_def demo_world_def)

lemma example_decodes_to: "decodes_to (example_world body) (push example_blob) ''http://example.com/''"
proof -
  have "checkValid (envelope example_blob) = None" by code_simp
  moreover have "decodeBase64 example_blob = Inr example_payload" by code_simp
  moreover have "checkValid example_payload = None" by code_simp
  ultimately show ?thesis unfolding example_world_def by (rule demo_decodes_to)
qed

lemma example_url_valid: "isValidURL ''http://example.com/''"
  by (simp add: isValidURL_def HasPrefix_def)

lemma demo_url_Parse:
  "\<not> stringContainsCTLByte (takeWhile (\<lambda>c. c \<noteq> CHR ''#'') url) \<Longrightarrow>
   url_Parse (demo_world d p u net) url = Inr url"
  by (simp add: url_Parse_def demo_world_def)

lemma example_url_Parse: "url_Parse (example_world body) ''http://example.com/'' = Inr ''http://example.com/''"
  unfolding example_world_def by (rule demo_url_Parse) (simp add: stringContainsCTLByte_def)

lemma HasPrefix_iff: "HasPrefix s pre = (\<exists>rest. s = pre @ rest)"
proof
  assume "HasPrefix s pre"
  then have "s = pre @ drop (length pre) s"
    by (metis HasPrefix_def append_take_drop_id)
  then show "\<exists>rest. s = pre @ rest" ..
next
  assume "\<exists>rest. s = pre @ rest"
  then show "HasPrefix s pre" by (auto simp: HasPrefix_def)
qed

lemma example_envelope_valid: "checkValid (envelope example_blob) = None"
  by code_simp

lemma example_blob_decodes: "decodeBase64 example_blob = Inr example_payload"
  by code_simp

lemma example_payload_valid: "checkValid example_payload = None"
  by code_simp

lemma example_client_Do:
  "client_Do (example_world body) q =
     Inr \<lparr>resp_StatusCode = 200,
          resp_Header = [(''Content-Type'', [''text/plain'']), (''Set-Cookie'', [''a=1'', ''b=2''])],
          resp_Body = body\<rparr>"
  by (simp add: example_world_def demo_world_def answer_def)

lemma example_headers:
  "json_Marshal_map (quote (example_world body))
     (joinHeaders [(''Content-Type'', [''text/plain'']), (''Set-Cookie'', [''a=1'', ''b=2''])])
   = Inr ''{\"Content-Type\":\"text/plain\",\"Set-Cookie\":\"a=1, b=2\"}''"
  unfolding example_world_def demo_world_def by code_simp

lemma body_members_json:
  "b \<noteq> [] \<Longrightarrow> ResponseJson p = b \<Longrightarrow> ResponseBody p = [] \<Longrightarrow>
   body_members p = [(''responseJson'', JString b)]"
  by (simp add: body_members_def json_Marshal_def omitempty_def)

lemma body_members_text:
  "ResponseBody p = b \<Longrightarrow> ResponseJson p = [] \<Longrightarrow>
   body_members p = (if b = [] then [] else [(''responseBody'', JString b)])"
  by (simp add: body_members_def json_Marshal_def omitempty_def)

lemma example_fetch:
  "ReadAll (LimitReader body bodyLimit) = (bodyBytes, None) \<Longrightarrow>
   fetchURL (example_world body) ''http://example.com/'' =
     ([Dispatch (GET_request ''http://example.com/'')],
      Inr \<lparr>URL = ''http://example.com/'', Error = [],
           Headers = ''{\"Content-Type\":\"text/plain\",\"Set-Cookie\":\"a=1, b=2\"}'',
           ResponseBody = (if json_Valid bodyBytes then [] else bodyBytes),
           ResponseJson = (if json_Valid bodyBytes then bodyBytes else []),
           ResponseTime = 366, RequestTime = ''2025-02-04T23:37:31.64365949Z'',
           StatusCode = 200\<rparr>)"
proof -
  assume r: "ReadAll (LimitReader body bodyLimit) = (bodyBytes, None)"
  have t: "sinceStart (example_world body) = 366"
      "startTime (example_world body) = ''2025-02-04T23:37:31.64365949Z''"
    by (simp_all add: example_world_def demo_world_def)
  show ?thesis
    using fetchURL_success [OF example_url_Parse, of body _ bodyBytes, OF example_client_Do]
    by (simp add: r example_headers t)
qed

subsection \<open>Headers and the body limit\<close>

lemma Join_Cons: "Join (v # vs) sep = v @ concat (map ((@) sep) vs)"
  by (induction vs arbitrary: v) simp_all

lemma fold_update_keys:
  "fst ` set (fold (\<lambda>(key, values). AList.update key (f values)) hdr acc)
     = fst ` set hdr \<union> fst ` set acc"
  by (induction hdr arbitrary: acc) (auto simp: AList.dom_update split: prod.splits)

lemma fold_update_map_of:
  "distinct (map fst hdr) \<Longrightarrow>
   map_of (fold (\<lambda>(key, values). AList.update key (f values)) hdr acc) k
     = (case map_of hdr k of Some vs \<Rightarrow> Some (f vs) | None \<Rightarrow> map_of acc k)"
proof (induction hdr arbitrary: acc)
  case Nil
  then show ?case by simp
next
  case (Cons a hdr)
  obtain k0 vs0 where a: "a = (k0, vs0)" by (cases a)
  from Cons.prems a have d: "distinct (map fst hdr)" and n: "k0 \<notin> fst ` set hdr" by auto
  from n have "map_of hdr k0 = None" by (simp add: map_of_eq_None_iff)
  then show ?case
    using Cons.IH [OF d, of "AList.update k0 (f vs0) acc"]
    by (auto simp: a AList.update_conv' split: option.splits)
qed

lemma joinHeaders_keys: "fst ` set (joinHeaders hdr) = fst ` set hdr"
  by (simp add: joinHeaders_def fold_update_keys)

lemma joinHeaders_map_of:
  "distinct (map fst hdr) \<Longrightarrow>
   map_of (joinHeaders hdr) k = map_option (\<lambda>vs. Join vs '', '') (map_of hdr k)"
  by (simp add: joinHeaders_def fold_update_map_of split: option.splits)

lemma bodyLimit_pos: "0 < nat bodyLimit"
  by (simp add: bodyLimit_def)

lemma ReadAll_limit_take:
  "fst (ReadAll (LimitReader (Stream bs e) bodyLimit)) = take (nat bodyLimit) bs"
  by (simp add: ReadAll_LimitReader)

lemma ReadAll_limit_reached:
  "nat bodyLimit \<le> length bs \<Longrightarrow>
   ReadAll (LimitReader (Stream bs e) bodyLimit) = (take (nat bodyLimit) bs, None)"
  by (simp add: ReadAll_LimitReader nat_le_iff)

lemma nat_bodyLimit_le_big_body: "nat bodyLimit \<le> length big_body"
  by (simp add: big_body_def bodyLimit_def)

subsection \<open>The claims\<close>

text \<open>
  C2. Whatever stage fails (method check, body read, envelope unmarshal, base64 decode,
  payload parse, URL validation, fetch, output marshal) and also when none does, the
  handler writes a status to the inbound response exactly once, and it is 200: for every
  world and every inbound request the statuses of the trace are the list \<open>[200]\<close>.
\<close>

theorem C2_handler_always_acknowledges:
  "statuses (pubSubHandler w r) = [200]"
  by (rule handler_statuses)

text \<open>
  C3. What is published for a failure. The claim is that the serialized failure payload
  holds only \<open>url\<close>, \<open>error\<close> and \<open>requestTime\<close>. In the source the fields
  \<open>ResponseTime\<close> and \<open>StatusCode\<close> of \<open>OutputPayload\<close> carry no \<open>omitempty\<close>, so
  \<open>json.Marshal\<close> emits them with their zero values: for a request with the method GET
  the published object has the five members \<open>url\<close>, \<open>error\<close>, \<open>responseTime\<close> (0),
  \<open>requestTime\<close> and \<open>statusCode\<close> (0), in every world.
\<close>

theorem C3_failure_payload_members:
  "published (pubSubHandler w \<lparr>Method = ''GET'', Body = Stream [] None\<rparr>) =
     [[(''url'', JString []), (''error'', JString ''Invalid request method''),
       (''responseTime'', JNumber 0), (''requestTime'', JString (errorTime w)),
       (''statusCode'', JNumber 0)]]"
proof -
  have "Method \<lparr>Method = ''GET'', Body = Stream [] None\<rparr> \<noteq> MethodPost"
    by (simp add: MethodPost_def)
  then show ?thesis
    by (simp add: handler_bad_method published_append published_publishErrorMessage)
qed

text \<open>
  C4. For every inbound request that decodes to a request for \<open>url\<close>: \<open>isValidURL\<close>
  holds exactly when \<open>url\<close> begins with \<open>http://\<close> or \<open>https://\<close>; when it holds, the
  handler goes on with \<open>fetchURL\<close> and its trace is decided by the result of
  \<open>fetchURL\<close>; when it does not hold, exactly one object is published, it is
  failure-shaped with the error \<open>Invalid URL\<close> and the offending URL (its members are
  \<open>url\<close>, \<open>error\<close>, \<open>responseTime\<close> 0, \<open>requestTime\<close> and \<open>statusCode\<close> 0, and
  nothing else), and no request is dispatched to the network.
\<close>

theorem C4_prefix_gates_fetch:
  "decodes_to w r url \<Longrightarrow>
   (isValidURL url \<longleftrightarrow> (\<exists>rest. url = ''http://'' @ rest) \<or> (\<exists>rest. url = ''https://'' @ rest)) \<and>
   (isValidURL url \<longrightarrow>
      pubSubHandler w r =
        (case fetchURL w url of
           (evs, Inl e) \<Rightarrow> evs @ publishErrorMessage w ''Error fetching URL'' url @ [WriteHeader StatusOK]
         | (evs, Inr output) \<Rightarrow> evs @ publishMessage w output @ [WriteHeader StatusOK])) \<and>
   (\<not> isValidURL url \<longrightarrow>
      (\<exists>obj. published (pubSubHandler w r) = [obj] \<and> failure_shaped obj ''Invalid URL'' url) \<and>
      published (pubSubHandler w r) =
        [[(''url'', JString url), (''error'', JString ''Invalid URL''),
          (''responseTime'', JNumber 0), (''requestTime'', JString (errorTime w)),
          (''statusCode'', JNumber 0)]] \<and>
      dispatched (pubSubHandler w r) = [])"
proof (intro conjI impI)
  show "isValidURL url \<longleftrightarrow> (\<exists>rest. url = ''http://'' @ rest) \<or> (\<exists>rest. url = ''https://'' @ rest)"
    unfolding isValidURL_def HasPrefix_iff ..
next
  assume "decodes_to w r url" "isValidURL url"
  then show "pubSubHandler w r =
        (case fetchURL w url of
           (evs, Inl e) \<Rightarrow> evs @ publishErrorMessage w ''Error fetching URL'' url @ [WriteHeader StatusOK]
         | (evs, Inr output) \<Rightarrow> evs @ publishMessage w output @ [WriteHeader StatusOK])"
    by (rule handler_valid)
next
  assume a: "decodes_to w r url" "\<not> isValidURL url"
  show "\<exists>obj. published (pubSubHandler w r) = [obj] \<and> failure_shaped obj ''Invalid URL'' url"
    unfolding handler_invalid [OF a] by (rule error_trace) simp
  show "published (pubSubHandler w r) =
        [[(''url'', JString url), (''error'', JString ''Invalid URL''),
          (''responseTime'', JNumber 0), (''requestTime'', JString (errorTime w)),
          (''statusCode'', JNumber 0)]]"
    unfolding handler_invalid [OF a] by (rule error_trace_published) simp
  show "dispatched (pubSubHandler w r) = []"
    unfolding handler_invalid [OF a] by (rule error_trace) simp
qed

theorem C4_witness:
  "decodes_to (example_world (Stream ''hello'' None)) (push example_blob) ''http://example.com/''
   \<and> isValidURL ''http://example.com/''
   \<and> pubSubHandler (example_world (Stream ''hello'' None)) (push example_blob) =
        (case fetchURL (example_world (Stream ''hello'' None)) ''http://example.com/'' of
           (evs, Inl e) \<Rightarrow> evs @ publishErrorMessage (example_world (Stream ''hello'' None))
                               ''Error fetching URL'' ''http://example.com/'' @ [WriteHeader StatusOK]
         | (evs, Inr output) \<Rightarrow> evs @ publishMessage (example_world (Stream ''hello'' None)) output
                               @ [WriteHeader StatusOK])
   \<and> decodes_to (demo_world ''eyJ1cmwiOiJmdHA6Ly9leGFtcGxlLmNvbS8ifQ==''
                   ''{\"url\":\"ftp://example.com/\"}'' ''ftp://example.com/'' (\<lambda>q. Inl TransportError))
        (push ''eyJ1cmwiOiJmdHA6Ly9leGFtcGxlLmNvbS8ifQ=='') ''ftp://example.com/''
   \<and> \<not> isValidURL ''ftp://example.com/''
   \<and> (\<exists>obj. published (pubSubHandler
                   (demo_world ''eyJ1cmwiOiJmdHA6Ly9leGFtcGxlLmNvbS8ifQ==''
                      ''{\"url\":\"ftp://example.com/\"}'' ''ftp://example.com/'' (\<lambda>q. Inl TransportError))
                   (push ''eyJ1cmwiOiJmdHA6Ly9leGFtcGxlLmNvbS8ifQ=='')) = [obj]
              \<and> failure_shaped obj ''Invalid URL'' ''ftp://example.com/'')
   \<and> published (pubSubHandler
                   (demo_world ''eyJ1cmwiOiJmdHA6Ly9leGFtcGxlLmNvbS8ifQ==''
                      ''{\"url\":\"ftp://example.com/\"}'' ''ftp://example.com/'' (\<lambda>q. Inl TransportError))
                   (push ''eyJ1cmwiOiJmdHA6Ly9leGFtcGxlLmNvbS8ifQ=='')) =
        [[(''url'', JString ''ftp://example.com/''), (''error'', JString ''Invalid URL''),
          (''responseTime'', JNumber 0), (''requestTime'', JString ''2025-02-05T01:27:41.915539558Z''),
          (''statusCode'', JNumber 0)]]
   \<and> dispatched (pubSubHandler
                   (demo_world ''eyJ1cmwiOiJmdHA6Ly9leGFtcGxlLmNvbS8ifQ==''
                      ''{\"url\":\"ftp://example.com/\"}'' ''ftp://example.com/'' (\<lambda>q. Inl TransportError))
                   (push ''eyJ1cmwiOiJmdHA6Ly9leGFtcGxlLmNvbS8ifQ=='')) = []"
proof -
  have d1: "decodes_to (example_world (Stream ''hello'' None)) (push example_blob) ''http://example.com/''"
    by (rule example_decodes_to)
  have v1: "isValidURL ''http://example.com/''" by (rule example_url_valid)
  have "checkValid (envelope ''eyJ1cmwiOiJmdHA6Ly9leGFtcGxlLmNvbS8ifQ=='') = None" by code_simp
  moreover have "decodeBase64 ''eyJ1cmwiOiJmdHA6Ly9leGFtcGxlLmNvbS8ifQ=='' = Inr ''{\"url\":\"ftp://example.com/\"}''"
    by code_simp
  moreover have "checkValid ''{\"url\":\"ftp://example.com/\"}'' = None" by code_simp
  ultimately have d2: "decodes_to (demo_world ''eyJ1cmwiOiJmdHA6Ly9leGFtcGxlLmNvbS8ifQ==''
                   ''{\"url\":\"ftp://example.com/\"}'' ''ftp://example.com/'' (\<lambda>q. Inl TransportError))
        (push ''eyJ1cmwiOiJmdHA6Ly9leGFtcGxlLmNvbS8ifQ=='') ''ftp://example.com/''"
    by (rule demo_decodes_to)
  have v2: "\<not> isValidURL ''ftp://example.com/''" by (simp add: isValidURL_def HasPrefix_def)
  from C4_prefix_gates_fetch [OF d1] C4_prefix_gates_fetch [OF d2] d1 v1 d2 v2
  show ?thesis unfolding demo_errorTime by blast
qed

text \<open>
  C8. For every inbound POST whose body unmarshals to an envelope, when the blob of the
  envelope (\<open>msg.Message.Data\<close>) is not valid base64, exactly one object is published,
  it is failure-shaped with the error \<open>Error decoding data\<close> and carries the raw blob in
  its \<open>url\<close> member (its members are \<open>url\<close>, \<open>error\<close>, \<open>responseTime\<close> 0,
  \<open>requestTime\<close> and \<open>statusCode\<close> 0, and nothing else); no request is dispatched,
  and the inbound call is answered 200.
\<close>

theorem C8_bad_base64_published_and_acknowledged:
  "delivers w r msg \<Longrightarrow> decodeBase64 (Data (Message msg)) = Inl e \<Longrightarrow>
   (\<exists>obj. published (pubSubHandler w r) = [obj]
          \<and> failure_shaped obj ''Error decoding data'' (Data (Message msg)))
   \<and> published (pubSubHandler w r) =
        [[(''url'', JString (Data (Message msg))), (''error'', JString ''Error decoding data''),
          (''responseTime'', JNumber 0), (''requestTime'', JString (errorTime w)),
          (''statusCode'', JNumber 0)]]
   \<and> dispatched (pubSubHandler w r) = []
   \<and> statuses (pubSubHandler w r) = [200]"
proof (intro conjI)
  assume a: "delivers w r msg" "decodeBase64 (Data (Message msg)) = Inl e"
  show "\<exists>obj. published (pubSubHandler w r) = [obj]
          \<and> failure_shaped obj ''Error decoding data'' (Data (Message msg))"
    unfolding handler_bad_blob [OF a] by (rule error_trace) simp
  show "published (pubSubHandler w r) =
        [[(''url'', JString (Data (Message msg))), (''error'', JString ''Error decoding data''),
          (''responseTime'', JNumber 0), (''requestTime'', JString (errorTime w)),
          (''statusCode'', JNumber 0)]]"
    unfolding handler_bad_blob [OF a] by (rule error_trace_published) simp
  show "dispatched (pubSubHandler w r) = []"
    unfolding handler_bad_blob [OF a] by (rule error_trace) simp
  show "statuses (pubSubHandler w r) = [200]" by (rule handler_statuses)
qed

theorem C8_witness:
  "delivers (demo_world ''not-base64!'' [] [] (\<lambda>q. Inl TransportError)) (push ''not-base64!'')
      \<lparr>Message = \<lparr>Data = ''not-base64!'', Attributes = [], MessageID = [], PublishTime = []\<rparr>,
       Subscription = []\<rparr>
   \<and> decodeBase64 ''not-base64!'' = Inl CorruptInputError
   \<and> (\<exists>obj. published (pubSubHandler (demo_world ''not-base64!'' [] [] (\<lambda>q. Inl TransportError))
                   (push ''not-base64!'')) = [obj]
          \<and> failure_shaped obj ''Error decoding data'' ''not-base64!'')
   \<and> published (pubSubHandler (demo_world ''not-base64!'' [] [] (\<lambda>q. Inl TransportError))
                   (push ''not-base64!'')) =
        [[(''url'', JString ''not-base64!''), (''error'', JString ''Error decoding data''),
          (''responseTime'', JNumber 0), (''requestTime'', JString ''2025-02-05T01:27:41.915539558Z''),
          (''statusCode'', JNumber 0)]]
   \<and> dispatched (pubSubHandler (demo_world ''not-base64!'' [] [] (\<lambda>q. Inl TransportError))
                   (push ''not-base64!'')) = []
   \<and> statuses (pubSubHandler (demo_world ''not-base64!'' [] [] (\<lambda>q. Inl TransportError))
                   (push ''not-base64!'')) = [200]"
proof -
  have "checkValid (envelope ''not-base64!'') = None" by code_simp
  then have d: "delivers (demo_world ''not-base64!'' [] [] (\<lambda>q. Inl TransportError)) (push ''not-base64!'')
      \<lparr>Message = \<lparr>Data = ''not-base64!'', Attributes = [], MessageID = [], PublishTime = []\<rparr>,
       Subscription = []\<rparr>"
    by (rule demo_delivers)
  have b: "decodeBase64 ''not-base64!'' = Inl CorruptInputError" by code_simp
  from C8_bad_base64_published_and_acknowledged [OF d, of CorruptInputError] d b
  show ?thesis by (simp add: demo_errorTime failure_shaped_error_object)
qed

text \<open>
  C9. For every inbound POST whose body unmarshals to an envelope with an empty blob
  (\<open>json.Unmarshal\<close> leaves \<open>Data\<close> at its zero value, the empty string, when the
  field is absent): the base64 decoding succeeds with the empty payload, the payload
  parse fails (the empty input is not JSON), and the object published is the failure
  with the error \<open>Error unmarshalling input JSON\<close>; the inbound call is answered 200.
\<close>

theorem C9_empty_blob_fails_at_payload_parse:
  "delivers w r msg \<Longrightarrow> Data (Message msg) = [] \<Longrightarrow>
   decodeBase64 (Data (Message msg)) = Inr []
   \<and> json_Unmarshal (unmarshal_InputPayload w) [] = Inl SyntaxError
   \<and> (\<exists>obj. published (pubSubHandler w r) = [obj]
          \<and> failure_shaped obj ''Error unmarshalling input JSON'' [])
   \<and> dispatched (pubSubHandler w r) = []
   \<and> statuses (pubSubHandler w r) = [200]"
proof (intro conjI)
  assume a: "delivers w r msg" and e: "Data (Message msg) = []"
  show b: "decodeBase64 (Data (Message msg)) = Inr []"
    by (simp add: e decodeBase64_def DecodeString_def)
  have "checkValid [] = Some SyntaxError" by code_simp
  then show u: "json_Unmarshal (unmarshal_InputPayload w) [] = Inl SyntaxError"
    by (simp add: json_Unmarshal_def)
  show "\<exists>obj. published (pubSubHandler w r) = [obj]
          \<and> failure_shaped obj ''Error unmarshalling input JSON'' []"
    unfolding handler_bad_payload [OF a b u] by (rule error_trace) simp
  show "dispatched (pubSubHandler w r) = []"
    unfolding handler_bad_payload [OF a b u] by (rule error_trace) simp
  show "statuses (pubSubHandler w r) = [200]" by (rule handler_statuses)
qed

theorem C9_witness:
  "delivers (demo_world [] [] [] (\<lambda>q. Inl TransportError)) (push [])
      \<lparr>Message = \<lparr>Data = [], Attributes = [], MessageID = [], PublishTime = []\<rparr>, Subscription = []\<rparr>
   \<and> decodeBase64 [] = Inr []
   \<and> json_Unmarshal (unmarshal_InputPayload (demo_world [] [] [] (\<lambda>q. Inl TransportError))) []
        = Inl SyntaxError
   \<and> (\<exists>obj. published (pubSubHandler (demo_world [] [] [] (\<lambda>q. Inl TransportError)) (push [])) = [obj]
          \<and> failure_shaped obj ''Error unmarshalling input JSON'' [])
   \<and> dispatched (pubSubHandler (demo_world [] [] [] (\<lambda>q. Inl TransportError)) (push [])) = []
   \<and> statuses (pubSubHandler (demo_world [] [] [] (\<lambda>q. Inl TransportError)) (push [])) = [200]"
proof -
  have "checkValid (envelope []) = None" by code_simp
  then have d: "delivers (demo_world [] [] [] (\<lambda>q. Inl TransportError)) (push [])
      \<lparr>Message = \<lparr>Data = [], Attributes = [], MessageID = [], PublishTime = []\<rparr>, Subscription = []\<rparr>"
    by (rule demo_delivers)
  from C9_empty_blob_fails_at_payload_parse [OF d] d show ?thesis by simp
qed

text \<open>
  C10. There are URLs that pass \<open>isValidURL\<close> and for which no request is ever issued:
  \<open>http://\<close> followed by a line feed has the prefix, \<open>http.NewRequest\<close> refuses it
  (control byte), so \<open>fetchURL\<close> returns the error before \<open>client.Do\<close> in every world,
  and an inbound request that decodes to it is reported with the error
  \<open>Error fetching URL\<close>, not \<open>Invalid URL\<close>.
\<close>

theorem C10_valid_prefix_but_no_request:
  "decodes_to w r (''http://'' @ [CHR 0x0A]) \<Longrightarrow>
   isValidURL (''http://'' @ [CHR 0x0A])
   \<and> fetchURL w (''http://'' @ [CHR 0x0A]) = ([], Inl UrlError)
   \<and> (\<exists>obj. published (pubSubHandler w r) = [obj]
          \<and> failure_shaped obj ''Error fetching URL'' (''http://'' @ [CHR 0x0A]))
   \<and> dispatched (pubSubHandler w r) = []"
proof -
  assume a: "decodes_to w r (''http://'' @ [CHR 0x0A])"
  have v: "isValidURL (''http://'' @ [CHR 0x0A])" by (simp add: isValidURL_def HasPrefix_def)
  have "url_Parse w (''http://'' @ [CHR 0x0A]) = Inl UrlError"
    by (simp add: url_Parse_def stringContainsCTLByte_def)
  then have f: "fetchURL w (''http://'' @ [CHR 0x0A]) = ([], Inl UrlError)"
    by (rule fetchURL_bad_url)
  have h: "pubSubHandler w r =
      publishErrorMessage w ''Error fetching URL'' (''http://'' @ [CHR 0x0A]) @ [WriteHeader StatusOK]"
    using handler_valid [OF a v] f by simp
  have "\<exists>obj. published (pubSubHandler w r) = [obj]
          \<and> failure_shaped obj ''Error fetching URL'' (''http://'' @ [CHR 0x0A])"
    unfolding h by (rule error_trace) simp
  moreover have "dispatched (pubSubHandler w r) = []"
    unfolding h by (rule error_trace) simp
  ultimately show ?thesis using v f by blast
qed

theorem C10_witness:
  "decodes_to (demo_world ''eyJ1cmwiOiJodHRwOi8vXG4ifQ=='' (''{\"url\":\"http://'' @ [CHR 0x5C] @ ''n\"}'')
                 (''http://'' @ [CHR 0x0A]) (answer (Stream ''hello'' None)))
      (push ''eyJ1cmwiOiJodHRwOi8vXG4ifQ=='') (''http://'' @ [CHR 0x0A])
   \<and> isValidURL (''http://'' @ [CHR 0x0A])
   \<and> fetchURL (demo_world ''eyJ1cmwiOiJodHRwOi8vXG4ifQ=='' (''{\"url\":\"http://'' @ [CHR 0x5C] @ ''n\"}'')
                 (''http://'' @ [CHR 0x0A]) (answer (Stream ''hello'' None))) (''http://'' @ [CHR 0x0A])
        = ([], Inl UrlError)
   \<and> (\<exists>obj. published (pubSubHandler
             (demo_world ''eyJ1cmwiOiJodHRwOi8vXG4ifQ=='' (''{\"url\":\"http://'' @ [CHR 0x5C] @ ''n\"}'')
                 (''http://'' @ [CHR 0x0A]) (answer (Stream ''hello'' None)))
             (push ''eyJ1cmwiOiJodHRwOi8vXG4ifQ=='')) = [obj]
          \<and> failure_shaped obj ''Error fetching URL'' (''http://'' @ [CHR 0x0A]))
   \<and> dispatched (pubSubHandler
             (demo_world ''eyJ1cmwiOiJodHRwOi8vXG4ifQ=='' (''{\"url\":\"http://'' @ [CHR 0x5C] @ ''n\"}'')
                 (''http://'' @ [CHR 0x0A]) (answer (Stream ''hello'' None)))
             (push ''eyJ1cmwiOiJodHRwOi8vXG4ifQ=='')) = []"
proof -
  have "checkValid (envelope ''eyJ1cmwiOiJodHRwOi8vXG4ifQ=='') = None" by code_simp
  moreover have "decodeBase64 ''eyJ1cmwiOiJodHRwOi8vXG4ifQ=='' = Inr (''{\"url\":\"http://'' @ [CHR 0x5C] @ ''n\"}'')"
    by code_simp
  moreover have "checkValid (''{\"url\":\"http://'' @ [CHR 0x5C] @ ''n\"}'') = None" by code_simp
  ultimately have d: "decodes_to (demo_world ''eyJ1cmwiOiJodHRwOi8vXG4ifQ=='' (''{\"url\":\"http://'' @ [CHR 0x5C] @ ''n\"}'')
                 (''http://'' @ [CHR 0x0A]) (answer (Stream ''hello'' None)))
      (push ''eyJ1cmwiOiJodHRwOi8vXG4ifQ=='') (''http://'' @ [CHR 0x0A])"
    by (rule demo_decodes_to)
  from C10_valid_prefix_but_no_request [OF d] d show ?thesis by blast
qed

text \<open>
  C5. For every inbound request that decodes to a valid URL for which the request can be
  built: when the transport fails (\<open>client.Do\<close> returns an error: refused, DNS, TLS,
  the 10 second \<open>Client.Timeout\<close>) or the read of the body fails, \<open>fetchURL\<close>
  returns the error and no payload, and the handler publishes exactly one object, which
  is failure-shaped with the error \<open>Error fetching URL\<close> and the target URL: its
  members are \<open>url\<close>, \<open>error\<close>, \<open>responseTime\<close> 0, \<open>requestTime\<close> (the time of the
  error report) and \<open>statusCode\<close> 0, and nothing of a response (no headers, no body, no
  status of the server). The inbound call is answered 200.
\<close>

theorem C5_fetch_failure_is_failure_shaped:
  "decodes_to w r url \<Longrightarrow> isValidURL url \<Longrightarrow> url_Parse w url = Inr url \<Longrightarrow>
   client_Do w (GET_request url) = Inl e
   \<or> (\<exists>resp b. client_Do w (GET_request url) = Inr resp
              \<and> ReadAll (LimitReader (resp_Body resp) bodyLimit) = (b, Some e)) \<Longrightarrow>
   snd (fetchURL w url) = Inl e
   \<and> (\<exists>obj. published (pubSubHandler w r) = [obj] \<and> failure_shaped obj ''Error fetching URL'' url)
   \<and> published (pubSubHandler w r) =
        [[(''url'', JString url), (''error'', JString ''Error fetching URL''),
          (''responseTime'', JNumber 0), (''requestTime'', JString (errorTime w)),
          (''statusCode'', JNumber 0)]]
   \<and> statuses (pubSubHandler w r) = [200]"
proof -
  assume d: "decodes_to w r url" and v: "isValidURL url" and p: "url_Parse w url = Inr url"
    and f: "client_Do w (GET_request url) = Inl e
      \<or> (\<exists>resp b. client_Do w (GET_request url) = Inr resp
              \<and> ReadAll (LimitReader (resp_Body resp) bodyLimit) = (b, Some e))"
  from f have fe: "fetchURL w url = ([Dispatch (GET_request url)], Inl e)"
    using fetchURL_no_response [OF p] fetchURL_body_error [OF p] by blast
  have h: "pubSubHandler w r =
      [Dispatch (GET_request url)] @ publishErrorMessage w ''Error fetching URL'' url @ [WriteHeader StatusOK]"
    using handler_valid [OF d v] fe by simp
  have "\<exists>obj. published (publishErrorMessage w ''Error fetching URL'' url @ [WriteHeader StatusOK]) = [obj]
          \<and> failure_shaped obj ''Error fetching URL'' url"
    by (rule error_trace) simp
  then have "\<exists>obj. published (pubSubHandler w r) = [obj] \<and> failure_shaped obj ''Error fetching URL'' url"
    unfolding h by (simp add: published_append)
  moreover have "published (pubSubHandler w r) =
        [[(''url'', JString url), (''error'', JString ''Error fetching URL''),
          (''responseTime'', JNumber 0), (''requestTime'', JString (errorTime w)),
          (''statusCode'', JNumber 0)]]"
    unfolding h using error_trace_published [of "''Error fetching URL''" w url]
    by (simp add: published_append)
  ultimately show ?thesis using fe handler_statuses [of w r] by simp
qed

theorem C5_witness:
  "snd (fetchURL (demo_world example_blob example_payload ''http://example.com/'' (\<lambda>q. Inl TransportError))
          ''http://example.com/'') = Inl TransportError
   \<and> (\<exists>obj. published (pubSubHandler
                 (demo_world example_blob example_payload ''http://example.com/'' (\<lambda>q. Inl TransportError))
                 (push example_blob)) = [obj]
          \<and> failure_shaped obj ''Error fetching URL'' ''http://example.com/'')
   \<and> published (pubSubHandler
                 (demo_world example_blob example_payload ''http://example.com/'' (\<lambda>q. Inl TransportError))
                 (push example_blob)) =
        [[(''url'', JString ''http://example.com/''), (''error'', JString ''Error fetching URL''),
          (''responseTime'', JNumber 0), (''requestTime'', JString ''2025-02-05T01:27:41.915539558Z''),
          (''statusCode'', JNumber 0)]]
   \<and> snd (fetchURL (example_world (Stream ''abc'' (Some ReadFailure))) ''http://example.com/'')
        = Inl ReadFailure
   \<and> (\<exists>obj. published (pubSubHandler (example_world (Stream ''abc'' (Some ReadFailure)))
                 (push example_blob)) = [obj]
          \<and> failure_shaped obj ''Error fetching URL'' ''http://example.com/'')
   \<and> published (pubSubHandler (example_world (Stream ''abc'' (Some ReadFailure))) (push example_blob)) =
        [[(''url'', JString ''http://example.com/''), (''error'', JString ''Error fetching URL''),
          (''responseTime'', JNumber 0), (''requestTime'', JString ''2025-02-05T01:27:41.915539558Z''),
          (''statusCode'', JNumber 0)]]
   \<and> statuses (pubSubHandler (example_world (Stream ''abc'' (Some ReadFailure))) (push example_blob)) = [200]"
proof -
  let ?w1 = "demo_world example_blob example_payload ''http://example.com/'' (\<lambda>q. Inl TransportError)"
  let ?w2 = "example_world (Stream ''abc'' (Some ReadFailure))"
  have d1: "decodes_to ?w1 (push example_blob) ''http://example.com/''"
    by (rule demo_decodes_to [OF example_envelope_valid example_blob_decodes example_payload_valid])
  have p1: "url_Parse ?w1 ''http://example.com/'' = Inr ''http://example.com/''"
    by (rule demo_url_Parse) (simp add: stringContainsCTLByte_def)
  have f1: "client_Do ?w1 (GET_request ''http://example.com/'') = Inl TransportError
      \<or> (\<exists>resp b. client_Do ?w1 (GET_request ''http://example.com/'') = Inr resp
              \<and> ReadAll (LimitReader (resp_Body resp) bodyLimit) = (b, Some TransportError))"
    by (simp add: demo_world_def)
  have "ReadAll (LimitReader (Stream ''abc'' (Some ReadFailure)) bodyLimit) = (''abc'', Some ReadFailure)"
    by (simp add: ReadAll_LimitReader bodyLimit_def)
  then have f2: "client_Do ?w2 (GET_request ''http://example.com/'') = Inl ReadFailure
      \<or> (\<exists>resp b. client_Do ?w2 (GET_request ''http://example.com/'') = Inr resp
              \<and> ReadAll (LimitReader (resp_Body resp) bodyLimit) = (b, Some ReadFailure))"
    by (simp add: example_client_Do)
  from C5_fetch_failure_is_failure_shaped [OF d1 example_url_valid p1 f1]
       C5_fetch_failure_is_failure_shaped [OF example_decodes_to example_url_valid example_url_Parse f2]
  show ?thesis unfolding demo_errorTime example_errorTime by blast
qed

text \<open>
  C1, as amended. For every successful fetch the captured bytes are classified by
  \<open>json.Valid\<close>: when they are valid JSON, the field \<open>ResponseJson\<close> of the outcome
  is the bytes verbatim, \<open>ResponseBody\<close> is empty, and the only body member
  \<open>json.Marshal\<close> emits is \<open>responseJson\<close>; when they are not, \<open>ResponseBody\<close> is the
  bytes, \<open>ResponseJson\<close> is empty, and the only body member emitted is \<open>responseBody\<close>,
  unless the body is empty: then neither member is emitted. The member of the field not
  selected is never emitted, and no member is emitted for an empty field. The statement
  is about the fields of the outcome and the names of the members emitted; the string
  the encoder writes for a member is not part of it.
\<close>

theorem C1_body_classification:
  "url_Parse w url = Inr url \<Longrightarrow> client_Do w (GET_request url) = Inr resp \<Longrightarrow>
   ReadAll (LimitReader (resp_Body resp) bodyLimit) = (bodyBytes, None) \<Longrightarrow>
   (\<exists>out. snd (fetchURL w url) = Inr out \<and>
      (json_Valid bodyBytes \<longrightarrow>
         ResponseJson out = bodyBytes \<and> ResponseBody out = [] \<and>
         map fst (body_members out) = [''responseJson'']) \<and>
      (\<not> json_Valid bodyBytes \<longrightarrow>
         ResponseBody out = bodyBytes \<and> ResponseJson out = [] \<and>
         map fst (body_members out) = (if bodyBytes = [] then [] else [''responseBody''])))"
proof -
  assume p: "url_Parse w url = Inr url" and c: "client_Do w (GET_request url) = Inr resp"
    and r: "ReadAll (LimitReader (resp_Body resp) bodyLimit) = (bodyBytes, None)"
  show ?thesis
  proof (cases "json_Valid bodyBytes")
    case True
    then have ne: "bodyBytes \<noteq> []" using not_json_Valid_empty by auto
    show ?thesis
      unfolding fetchURL_success [OF p c r]
      using True ne by (simp add: body_members_json)
  next
    case False
    show ?thesis
      unfolding fetchURL_success [OF p c r]
      using False by (simp add: body_members_text)
  qed
qed

theorem C1_witness:
  "(\<exists>out. snd (fetchURL (example_world (Stream ''{\"message\":\"Hello\"}'' None)) ''http://example.com/'') = Inr out
      \<and> json_Valid ''{\"message\":\"Hello\"}''
      \<and> ResponseJson out = ''{\"message\":\"Hello\"}'' \<and> ResponseBody out = []
      \<and> map fst (body_members out) = [''responseJson''])
   \<and> (\<exists>out. snd (fetchURL (example_world (Stream ''Body Content Goes Here'' None)) ''http://example.com/'') = Inr out
      \<and> \<not> json_Valid ''Body Content Goes Here''
      \<and> ResponseBody out = ''Body Content Goes Here'' \<and> ResponseJson out = []
      \<and> map fst (body_members out) = [''responseBody''])"
proof -
  have v1: "json_Valid ''{\"message\":\"Hello\"}''" by code_simp
  have v2: "\<not> json_Valid ''Body Content Goes Here''" by code_simp
  have r1: "ReadAll (LimitReader (resp_Body \<lparr>resp_StatusCode = 200,
          resp_Header = [(''Content-Type'', [''text/plain'']), (''Set-Cookie'', [''a=1'', ''b=2''])],
          resp_Body = Stream ''{\"message\":\"Hello\"}'' None\<rparr>) bodyLimit) = (''{\"message\":\"Hello\"}'', None)"
    by (simp add: ReadAll_LimitReader bodyLimit_def)
  have r2: "ReadAll (LimitReader (resp_Body \<lparr>resp_StatusCode = 200,
          resp_Header = [(''Content-Type'', [''text/plain'']), (''Set-Cookie'', [''a=1'', ''b=2''])],
          resp_Body = Stream ''Body Content Goes Here'' None\<rparr>) bodyLimit) = (''Body Content Goes Here'', None)"
    by (simp add: ReadAll_LimitReader bodyLimit_def)
  from C1_body_classification [OF example_url_Parse example_client_Do r1]
       C1_body_classification [OF example_url_Parse example_client_Do r2] v1 v2
  show ?thesis by simp
qed

text \<open>
  C1 as stated says that exactly one of \<open>responseBody\<close> and \<open>responseJson\<close> is
  populated for every successful fetch. It fails for an empty body: the empty input is
  not valid JSON, \<open>ResponseBody\<close> is set to the empty string, and \<open>omitempty\<close> leaves
  both members out. The server answers 200 with an empty body; the object published
  has neither member.
\<close>

theorem C1_counterexample:
  "published (pubSubHandler (example_world (Stream [] None)) (push example_blob)) =
     [[(''url'', JString ''http://example.com/''),
       (''headers'', JString ''{\"Content-Type\":\"text/plain\",\"Set-Cookie\":\"a=1, b=2\"}''),
       (''responseTime'', JNumber 366),
       (''requestTime'', JString ''2025-02-04T23:37:31.64365949Z''),
       (''statusCode'', JNumber 200)]]"
proof -
  have r: "ReadAll (LimitReader (Stream [] None) bodyLimit) = ([], None)"
    by (simp add: ReadAll_LimitReader bodyLimit_def)
  have "pubSubHandler (example_world (Stream [] None)) (push example_blob) =
     (case fetchURL (example_world (Stream [] None)) ''http://example.com/'' of
        (evs, Inl e) \<Rightarrow> evs @ publishErrorMessage (example_world (Stream [] None)) ''Error fetching URL''
                            ''http://example.com/'' @ [WriteHeader StatusOK]
      | (evs, Inr output) \<Rightarrow> evs @ publishMessage (example_world (Stream [] None)) output
                            @ [WriteHeader StatusOK])"
    by (rule handler_valid [OF example_decodes_to example_url_valid])
  then show ?thesis
    by (simp add: example_fetch [OF r] not_json_Valid_empty published_append published_publishMessage
        json_Marshal_def omitempty_def)
qed

text \<open>
  C6. For every successful fetch (the header map of the response has one entry per
  name, as a Go map has): the names of the joined map are exactly the names of the
  response's headers; the value of a name is the values of that header, in the order
  delivered, joined with \<open>", "\<close> (a single value is kept as it is); the \<open>Headers\<close>
  field of the outcome is \<open>json.Marshal\<close> of the joined map, and it is the \<open>headers\<close>
  member of the object that is marshalled for publishing.
\<close>

theorem C6_headers_joined_and_encoded:
  "url_Parse w url = Inr url \<Longrightarrow> client_Do w (GET_request url) = Inr resp \<Longrightarrow>
   ReadAll (LimitReader (resp_Body resp) bodyLimit) = (bodyBytes, None) \<Longrightarrow>
   distinct (map fst (resp_Header resp)) \<Longrightarrow>
   fst ` set (joinHeaders (resp_Header resp)) = fst ` set (resp_Header resp)
   \<and> (\<forall>k. map_of (joinHeaders (resp_Header resp)) k =
          (case map_of (resp_Header resp) k of
             None \<Rightarrow> None
           | Some [] \<Rightarrow> Some []
           | Some (v # vs) \<Rightarrow> Some (v @ concat (map ((@) '', '') vs))))
   \<and> (\<exists>out obj. snd (fetchURL w url) = Inr out
          \<and> json_Marshal_map (quote w) (joinHeaders (resp_Header resp)) = Inr (Headers out)
          \<and> json_Marshal out = Inr obj
          \<and> map_of obj ''headers'' = Some (JString (Headers out)))"
proof (intro conjI allI)
  assume p: "url_Parse w url = Inr url" and c: "client_Do w (GET_request url) = Inr resp"
    and r: "ReadAll (LimitReader (resp_Body resp) bodyLimit) = (bodyBytes, None)"
    and d: "distinct (map fst (resp_Header resp))"
  show "fst ` set (joinHeaders (resp_Header resp)) = fst ` set (resp_Header resp)"
    by (rule joinHeaders_keys)
  show "map_of (joinHeaders (resp_Header resp)) k =
          (case map_of (resp_Header resp) k of
             None \<Rightarrow> None
           | Some [] \<Rightarrow> Some []
           | Some (v # vs) \<Rightarrow> Some (v @ concat (map ((@) '', '') vs)))" for k
    by (simp add: joinHeaders_map_of [OF d] Join_Cons split: option.splits list.splits)
  show "\<exists>out obj. snd (fetchURL w url) = Inr out
          \<and> json_Marshal_map (quote w) (joinHeaders (resp_Header resp)) = Inr (Headers out)
          \<and> json_Marshal out = Inr obj
          \<and> map_of obj ''headers'' = Some (JString (Headers out))"
    unfolding fetchURL_success [OF p c r]
    by (simp add: json_Marshal_map_def json_Marshal_def omitempty_def)
qed


theorem C6_witness:
  "distinct (map fst [(''Content-Type'', [''text/plain'']), (''Set-Cookie'', [''a=1'', ''b=2''])])
   \<and> map_of (joinHeaders [(''Content-Type'', [''text/plain'']), (''Set-Cookie'', [''a=1'', ''b=2''])])
        ''Set-Cookie'' = Some ''a=1, b=2''
   \<and> (\<exists>out obj. snd (fetchURL (example_world (Stream ''hello'' None)) ''http://example.com/'') = Inr out
          \<and> Headers out = ''{\"Content-Type\":\"text/plain\",\"Set-Cookie\":\"a=1, b=2\"}''
          \<and> json_Marshal out = Inr obj
          \<and> map_of obj ''headers'' = Some (JString (Headers out)))"
proof -
  let ?hdr = "[(''Content-Type'', [''text/plain'']), (''Set-Cookie'', [''a=1'', ''b=2''])]"
  let ?resp = "\<lparr>resp_StatusCode = 200, resp_Header = ?hdr, resp_Body = Stream ''hello'' None\<rparr>"
  let ?w = "example_world (Stream ''hello'' None)"
  have d: "distinct (map fst (resp_Header ?resp))" by simp
  have r: "ReadAll (LimitReader (resp_Body ?resp) bodyLimit) = (''hello'', None)"
    by (simp add: ReadAll_LimitReader bodyLimit_def)
  note t = C6_headers_joined_and_encoded [OF example_url_Parse example_client_Do r d]
  from t have m: "map_of (joinHeaders (resp_Header ?resp)) ''Set-Cookie'' =
          (case map_of (resp_Header ?resp) ''Set-Cookie'' of
             None \<Rightarrow> None
           | Some [] \<Rightarrow> Some []
           | Some (v # vs) \<Rightarrow> Some (v @ concat (map ((@) '', '') vs)))"
    by blast
  have m': "map_of (joinHeaders ?hdr) ''Set-Cookie'' = Some ''a=1, b=2''"
    using m by simp
  from t obtain out obj where o: "snd (fetchURL ?w ''http://example.com/'') = Inr out"
      "json_Marshal_map (quote ?w) (joinHeaders (resp_Header ?resp)) = Inr (Headers out)"
      "json_Marshal out = Inr obj" "map_of obj ''headers'' = Some (JString (Headers out))"
    by blast
  from o(2) example_headers [of "Stream ''hello'' None"]
  have "Headers out = ''{\"Content-Type\":\"text/plain\",\"Set-Cookie\":\"a=1, b=2\"}''"
    by simp
  with o have "\<exists>out obj. snd (fetchURL ?w ''http://example.com/'') = Inr out
          \<and> Headers out = ''{\"Content-Type\":\"text/plain\",\"Set-Cookie\":\"a=1, b=2\"}''
          \<and> json_Marshal out = Inr obj
          \<and> map_of obj ''headers'' = Some (JString (Headers out))"
    by blast
  with m' show ?thesis by simp
qed

text \<open>
  C7. For every fetch that gets a response whose body is a stream of bytes \<open>bs\<close>
  (ending in EOF or in a read error): the limit is 10 MiB; a successful fetch captures
  exactly the first 10 MiB of \<open>bs\<close> (all of \<open>bs\<close> when it is shorter), never more; and
  when the stream holds 10 MiB or more, the fetch succeeds whatever comes after the
  cap, the first 10 MiB are classified by \<open>json.Valid\<close>, and the one object published
  is the marshalled success outcome: it has no \<open>error\<close> member and its one body
  member is \<open>responseJson\<close> or \<open>responseBody\<close> by that classification.
\<close>

theorem C7_body_capped_not_rejected:
  "decodes_to w r url \<Longrightarrow> isValidURL url \<Longrightarrow> url_Parse w url = Inr url \<Longrightarrow>
   client_Do w (GET_request url) = Inr resp \<Longrightarrow> resp_Body resp = Stream bs e \<Longrightarrow>
   bodyLimit = 10 * 1024 * 1024
   \<and> (\<forall>out. snd (fetchURL w url) = Inr out \<longrightarrow>
      ResponseJson out @ ResponseBody out = take (nat bodyLimit) bs
      \<and> length (ResponseJson out @ ResponseBody out) \<le> nat bodyLimit)
   \<and> (nat bodyLimit \<le> length bs \<longrightarrow>
        (\<exists>out obj. snd (fetchURL w url) = Inr out \<and> json_Marshal out = Inr obj
           \<and> published (pubSubHandler w r) = [obj] \<and> map_of obj ''error'' = None
           \<and> map fst (body_members out) =
               [if json_Valid (take (nat bodyLimit) bs) then ''responseJson'' else ''responseBody'']))"
proof (intro conjI allI impI)
  assume d: "decodes_to w r url" and v: "isValidURL url" and p: "url_Parse w url = Inr url"
    and c: "client_Do w (GET_request url) = Inr resp" and b: "resp_Body resp = Stream bs e"
  show "bodyLimit = 10 * 1024 * 1024" by (simp add: bodyLimit_def)
  obtain x y where xy: "ReadAll (LimitReader (resp_Body resp) bodyLimit) = (x, y)"
    by (cases "ReadAll (LimitReader (resp_Body resp) bodyLimit)")
  have x: "x = take (nat bodyLimit) bs"
    using ReadAll_limit_take [of bs e] xy b by simp
  {
    fix out assume s: "snd (fetchURL w url) = Inr out"
    have y: "y = None"
    proof (cases y)
      case None then show ?thesis .
    next
      case (Some err)
      with fetchURL_body_error [OF p c, of x err] xy s show ?thesis by simp
    qed
    from s have o: "ResponseJson out @ ResponseBody out = x"
      unfolding fetchURL_success [OF p c xy [unfolded y]] by auto
    then show "ResponseJson out @ ResponseBody out = take (nat bodyLimit) bs" using x by simp
    from o x show "length (ResponseJson out @ ResponseBody out) \<le> nat bodyLimit" by simp
  }
  assume big: "nat bodyLimit \<le> length bs"
  then have r: "ReadAll (LimitReader (resp_Body resp) bodyLimit) = (take (nat bodyLimit) bs, None)"
    using ReadAll_limit_reached [of bs e] b by simp
  from big bodyLimit_pos have ne: "take (nat bodyLimit) bs \<noteq> []" by auto
  have h: "pubSubHandler w r =
     (case fetchURL w url of
        (evs, Inl e) \<Rightarrow> evs @ publishErrorMessage w ''Error fetching URL'' url @ [WriteHeader StatusOK]
      | (evs, Inr output) \<Rightarrow> evs @ publishMessage w output @ [WriteHeader StatusOK])"
    by (rule handler_valid [OF d v])
  show "\<exists>out obj. snd (fetchURL w url) = Inr out \<and> json_Marshal out = Inr obj
           \<and> published (pubSubHandler w r) = [obj] \<and> map_of obj ''error'' = None
           \<and> map fst (body_members out) =
               [if json_Valid (take (nat bodyLimit) bs) then ''responseJson'' else ''responseBody'']"
    unfolding h fetchURL_success [OF p c r]
    using ne
    by (simp add: published_append published_publishMessage json_Marshal_def omitempty_def
        body_members_def json_Marshal_map_def)
qed

theorem C7_witness:
  "nat bodyLimit \<le> length big_body
   \<and> (\<exists>out obj. snd (fetchURL (example_world (Stream big_body (Some ReadFailure))) ''http://example.com/'') = Inr out
          \<and> json_Marshal out = Inr obj
          \<and> published (pubSubHandler (example_world (Stream big_body (Some ReadFailure))) (push example_blob)) = [obj]
          \<and> map_of obj ''error'' = None
          \<and> ResponseJson out @ ResponseBody out = take (nat bodyLimit) big_body
          \<and> length (ResponseJson out @ ResponseBody out) \<le> nat bodyLimit)"
proof -
  have b: "resp_Body \<lparr>resp_StatusCode = 200,
          resp_Header = [(''Content-Type'', [''text/plain'']), (''Set-Cookie'', [''a=1'', ''b=2''])],
          resp_Body = Stream big_body (Some ReadFailure)\<rparr> = Stream big_body (Some ReadFailure)"
    by simp
  from C7_body_capped_not_rejected [OF example_decodes_to example_url_valid example_url_Parse
      example_client_Do b] nat_bodyLimit_le_big_body
  show ?thesis by blast
qed

end
